theory Spec2Isabelle
  imports Complex_Main "HOL-Library.Word"
begin

unbundle bit_operations_syntax

section \<open>Python values, exceptions and the external library\<close>

text \<open>
  The codec is dynamically typed: every constructor inspects the runtime type of its
  argument. Values are therefore an explicit datatype. A \<open>str\<close> is a list of Unicode
  code points, \<open>bytes\<close> a list of 8-bit words, a \<open>dict\<close> an association list in
  insertion order. The float type is a parameter \<open>'f\<close>: no property of floating point
  arithmetic is assumed anywhere.
\<close>

datatype error =
  ValueError | TypeError | KeyError | AttributeError | NameError | AssertionError
  | StopIteration | IndexError | OverflowError | ZeroDivisionError | UnicodeError
  | JSONDecodeError | Exception

type_synonym byte = "8 word"
type_synonym str = "nat list"

datatype 'f pyval =
  PNone
  | PBool bool
  | PInt int
  | PFloat 'f
  | PStr str
  | PBytes "byte list"
  | PList "'f pyval list"
  | PDict "('f pyval \<times> 'f pyval) list"

abbreviation str_of :: "string \<Rightarrow> str" where
  "str_of s \<equiv> map of_char s"

abbreviation key :: "string \<Rightarrow> 'f pyval" where
  "key s \<equiv> PStr (map of_char s)"

text \<open>
  Library code outside the repository (the \<open>json\<close> module, the parsing done by
  \<open>int()\<close> on text, float arithmetic) is taken as a parameter.
\<close>

record 'f pylib =
  json_dumps :: "'f pyval \<Rightarrow> error + str"
  json_loads :: "str \<Rightarrow> error + 'f pyval"
  int_of_str :: "str \<Rightarrow> error + int"
  int_of_bytes :: "byte list \<Rightarrow> error + int"
  float_of_int :: "int \<Rightarrow> error + 'f"
  float_mul :: "'f \<Rightarrow> 'f \<Rightarrow> 'f"
  float_truediv :: "'f \<Rightarrow> 'f \<Rightarrow> error + 'f"
  float_trunc :: "'f \<Rightarrow> error + int"
  float_eq_int :: "'f \<Rightarrow> int \<Rightarrow> bool"
  float_nonzero :: "'f \<Rightarrow> bool"
  float_1e3 :: "'f"
  float_1e7 :: "'f"

text \<open>Raising is \<open>Inl\<close>; \<open>bnd\<close> sequences two steps and stops at the first raise.\<close>

definition bnd :: "error + 'a \<Rightarrow> ('a \<Rightarrow> error + 'b) \<Rightarrow> error + 'b" where
  "bnd m f = (case m of Inl e \<Rightarrow> Inl e | Inr x \<Rightarrow> f x)"

subsection \<open>Builtins\<close>

definition py_len :: "'f pyval \<Rightarrow> error + nat" where
  "py_len v = (case v of
      PStr s \<Rightarrow> Inr (length s)
    | PBytes b \<Rightarrow> Inr (length b)
    | PList xs \<Rightarrow> Inr (length xs)
    | PDict d \<Rightarrow> Inr (length d)
    | _ \<Rightarrow> Inl TypeError)"

definition py_bool :: "'f pylib \<Rightarrow> 'f pyval \<Rightarrow> bool" where
  "py_bool L v = (case v of
      PNone \<Rightarrow> False
    | PBool b \<Rightarrow> b
    | PInt n \<Rightarrow> \<not> (n = 0)
    | PFloat x \<Rightarrow> float_nonzero L x
    | PStr s \<Rightarrow> \<not> (s = [])
    | PBytes b \<Rightarrow> \<not> (b = [])
    | PList xs \<Rightarrow> \<not> (xs = [])
    | PDict d \<Rightarrow> \<not> (d = []))"

definition py_int :: "'f pylib \<Rightarrow> 'f pyval \<Rightarrow> error + int" where
  "py_int L v = (case v of
      PInt n \<Rightarrow> Inr n
    | PBool b \<Rightarrow> Inr (if b then 1 else 0)
    | PFloat x \<Rightarrow> float_trunc L x
    | PStr s \<Rightarrow> int_of_str L s
    | PBytes b \<Rightarrow> int_of_bytes L b
    | _ \<Rightarrow> Inl TypeError)"

text \<open>\<open>d[k]\<close> and \<open>d.get(k, None)\<close> on a dict.\<close>

definition getitem :: "('f pyval \<times> 'f pyval) list \<Rightarrow> 'f pyval \<Rightarrow> error + 'f pyval" where
  "getitem d k = (case map_of d k of None \<Rightarrow> Inl KeyError | Some v \<Rightarrow> Inr v)"

definition dict_get :: "('f pyval \<times> 'f pyval) list \<Rightarrow> 'f pyval \<Rightarrow> 'f pyval" where
  "dict_get d k = (case map_of d k of None \<Rightarrow> PNone | Some v \<Rightarrow> v)"

text \<open>\<open>bytes([x])\<close>: one byte from an integer in range.\<close>

definition byte_of_int :: "int \<Rightarrow> error + byte list" where
  "byte_of_int n = (if 0 \<le> n \<and> n < 256 then Inr [word_of_int n] else Inl ValueError)"

definition byte_of :: "'f pyval \<Rightarrow> error + byte list" where
  "byte_of v = (case v of
      PInt n \<Rightarrow> byte_of_int n
    | PBool b \<Rightarrow> Inr [if b then 1 else 0]
    | _ \<Rightarrow> Inl TypeError)"

text \<open>\<open>bytes(xs)\<close> for a list \<open>xs\<close>.\<close>

fun bytes_of_list :: "'f pyval list \<Rightarrow> error + byte list" where
  "bytes_of_list [] = Inr []"
| "bytes_of_list (x # xs) =
     bnd (byte_of x) (\<lambda>b. bnd (bytes_of_list xs) (\<lambda>bs. Inr (b @ bs)))"

text \<open>\<open>out += x\<close> where \<open>out\<close> is a bytes object.\<close>

definition bytes_iadd :: "byte list \<Rightarrow> 'f pyval \<Rightarrow> error + byte list" where
  "bytes_iadd out v = (case v of PBytes b \<Rightarrow> Inr (out @ b) | _ \<Rightarrow> Inl TypeError)"

text \<open>\<open>int.from_bytes(bs, 'little')\<close>, unsigned and signed.\<close>

fun from_bytes :: "byte list \<Rightarrow> int" where
  "from_bytes [] = 0"
| "from_bytes (b # bs) = uint b + 256 * from_bytes bs"

definition from_bytes_signed :: "byte list \<Rightarrow> int" where
  "from_bytes_signed bs =
     (let n = from_bytes bs
      in if bs = [] then 0
         else if n < 2 ^ (8 * length bs - 1) then n else n - 2 ^ (8 * length bs))"

text \<open>\<open>n.to_bytes(len, 'little')\<close>, unsigned and signed.\<close>

fun le_bytes :: "nat \<Rightarrow> int \<Rightarrow> byte list" where
  "le_bytes 0 n = []"
| "le_bytes (Suc k) n = word_of_int n # le_bytes k (n div 256)"

definition to_bytes :: "int \<Rightarrow> nat \<Rightarrow> error + byte list" where
  "to_bytes n len =
     (if 0 \<le> n \<and> n < 2 ^ (8 * len) then Inr (le_bytes len n) else Inl OverflowError)"

definition to_bytes_signed :: "int \<Rightarrow> nat \<Rightarrow> error + byte list" where
  "to_bytes_signed n len =
     (if len = 0 then (if n = 0 then Inr [] else Inl OverflowError)
      else if - (2 ^ (8 * len - 1)) \<le> n \<and> n < 2 ^ (8 * len - 1)
      then Inr (le_bytes len n) else Inl OverflowError)"

text \<open>The method call \<open>v.to_bytes(len, 'little', signed=...)\<close> on an arbitrary value:
  only \<open>int\<close> (and its subclass \<open>bool\<close>) has the method.\<close>

definition py_to_bytes :: "'f pyval \<Rightarrow> nat \<Rightarrow> bool \<Rightarrow> error + byte list" where
  "py_to_bytes v len is_signed = (case v of
      PInt n \<Rightarrow> (if is_signed then to_bytes_signed n len else to_bytes n len)
    | PBool b \<Rightarrow> (if is_signed then to_bytes_signed (if b then 1 else 0) len
                  else to_bytes (if b then 1 else 0) len)
    | _ \<Rightarrow> Inl AttributeError)"

text \<open>\<open>s.encode()\<close> and \<open>b.decode()\<close>: strict UTF-8.\<close>

definition utf8_char :: "nat \<Rightarrow> error + byte list" where
  "utf8_char c =
     (if c < 0x80 then Inr [of_nat c]
      else if c < 0x800 then Inr [of_nat (0xC0 + c div 64), of_nat (0x80 + c mod 64)]
      else if 0xD800 \<le> c \<and> c < 0xE000 then Inl UnicodeError
      else if c < 0x10000 then
        Inr [of_nat (0xE0 + c div 4096), of_nat (0x80 + c div 64 mod 64),
             of_nat (0x80 + c mod 64)]
      else if c < 0x110000 then
        Inr [of_nat (0xF0 + c div 262144), of_nat (0x80 + c div 4096 mod 64),
             of_nat (0x80 + c div 64 mod 64), of_nat (0x80 + c mod 64)]
      else Inl UnicodeError)"

fun encode :: "str \<Rightarrow> error + byte list" where
  "encode [] = Inr []"
| "encode (c # cs) = bnd (utf8_char c) (\<lambda>b. bnd (encode cs) (\<lambda>bs. Inr (b @ bs)))"

definition is_cont :: "nat \<Rightarrow> bool" where
  "is_cont b = (0x80 \<le> b \<and> b < 0xC0)"

fun decode_nat :: "nat list \<Rightarrow> error + str" where
  "decode_nat [] = Inr []"
| "decode_nat (b # bs) =
     (if b < 0x80 then bnd (decode_nat bs) (\<lambda>r. Inr (b # r))
      else if 0xC2 \<le> b \<and> b < 0xE0 then
        (case bs of
           c1 # r \<Rightarrow>
             if is_cont c1
             then bnd (decode_nat r) (\<lambda>s. Inr (((b - 0xC0) * 64 + (c1 - 0x80)) # s))
             else Inl UnicodeError
         | _ \<Rightarrow> Inl UnicodeError)
      else if 0xE0 \<le> b \<and> b < 0xF0 then
        (case bs of
           c1 # c2 # r \<Rightarrow>
             if is_cont c1 \<and> is_cont c2
                \<and> (if b = 0xE0 then 0xA0 \<le> c1 else True)
                \<and> (if b = 0xED then c1 < 0xA0 else True)
             then bnd (decode_nat r)
                    (\<lambda>s. Inr (((b - 0xE0) * 4096 + (c1 - 0x80) * 64 + (c2 - 0x80)) # s))
             else Inl UnicodeError
         | _ \<Rightarrow> Inl UnicodeError)
      else if 0xF0 \<le> b \<and> b < 0xF5 then
        (case bs of
           c1 # c2 # c3 # r \<Rightarrow>
             if is_cont c1 \<and> is_cont c2 \<and> is_cont c3
                \<and> (if b = 0xF0 then 0x90 \<le> c1 else True)
                \<and> (if b = 0xF4 then c1 < 0x90 else True)
             then bnd (decode_nat r)
                    (\<lambda>s. Inr (((b - 0xF0) * 262144 + (c1 - 0x80) * 4096
                                + (c2 - 0x80) * 64 + (c3 - 0x80)) # s))
             else Inl UnicodeError
         | _ \<Rightarrow> Inl UnicodeError)
      else Inl UnicodeError)"

definition decode :: "byte list \<Rightarrow> error + str" where
  "decode bs = decode_nat (map unat bs)"

text \<open>\<open>t.index(c)\<close>: the position of the first occurrence; raises when there is none.\<close>

fun first_index :: "nat list \<Rightarrow> nat \<Rightarrow> nat option" where
  "first_index [] c = None"
| "first_index (x # xs) c =
     (if x = c then Some 0 else map_option Suc (first_index xs c))"

definition str_index :: "str \<Rightarrow> nat \<Rightarrow> error + int" where
  "str_index t c = (case first_index t c of None \<Rightarrow> Inl ValueError | Some p \<Rightarrow> Inr (int p))"


section \<open>Field codecs\<close>

text \<open>
  A field object holds \<open>_length\<close> and \<open>_value\<close>. The stored value keeps its Python
  type: \<open>None\<close> is a legal stored value for the integer, text and binary fields.
\<close>

record 'f field =
  f_length :: nat
  f_value :: "'f pyval"

subsection \<open>FieldInteger\<close>

definition FieldInteger_init :: "'f pyval \<Rightarrow> nat \<Rightarrow> error + 'f field" where
  "FieldInteger_init v len = (case v of
      PInt n \<Rightarrow> Inr \<lparr>f_length = len, f_value = PInt n\<rparr>
    | PBool b \<Rightarrow> Inr \<lparr>f_length = len, f_value = PBool b\<rparr>
    | PBytes bs \<Rightarrow>
        if length bs = len then Inr \<lparr>f_length = len, f_value = PInt (from_bytes bs)\<rparr>
        else Inl ValueError
    | PNone \<Rightarrow> Inr \<lparr>f_length = len, f_value = PNone\<rparr>
    | _ \<Rightarrow> Inl ValueError)"

definition FieldInteger_as_bytes :: "'f field \<Rightarrow> error + byte list" where
  "FieldInteger_as_bytes f = py_to_bytes (f_value f) (f_length f) False"

subsection \<open>FieldText\<close>

definition FieldText_init :: "'f pyval \<Rightarrow> nat \<Rightarrow> error + 'f field" where
  "FieldText_init v len = (case v of
      PStr s \<Rightarrow>
        bnd (encode s) (\<lambda>b.
          if length b > len then Inl ValueError
          else Inr \<lparr>f_length = len, f_value = PStr s\<rparr>)
    | PBytes bs \<Rightarrow>
        if length bs > len then Inl ValueError
        else bnd (decode bs) (\<lambda>t.
             bnd (str_index t 0) (\<lambda>p.
               Inr \<lparr>f_length = len,
                    f_value = PStr (if p = - 1 then t else take (nat p) t)\<rparr>))
    | PNone \<Rightarrow> Inr \<lparr>f_length = len, f_value = PNone\<rparr>
    | _ \<Rightarrow> Inl ValueError)"

definition FieldText_as_bytes :: "'f field \<Rightarrow> error + byte list" where
  "FieldText_as_bytes f = (case f_value f of
      PStr s \<Rightarrow> bnd (encode s) (\<lambda>b. Inr (take (f_length f) (b @ replicate (f_length f) 0)))
    | _ \<Rightarrow> Inl AttributeError)"

subsection \<open>FieldBinary\<close>

definition FieldBinary_init :: "'f pyval \<Rightarrow> nat \<Rightarrow> error + 'f field" where
  "FieldBinary_init v len = (case v of
      PList xs \<Rightarrow>
        if length xs = len
        then bnd (bytes_of_list xs) (\<lambda>b. Inr \<lparr>f_length = len, f_value = PBytes b\<rparr>)
        else Inl ValueError
    | PBytes b \<Rightarrow>
        if length b = len then Inr \<lparr>f_length = len, f_value = PBytes b\<rparr>
        else Inl ValueError
    | PStr s \<Rightarrow>
        if length s > len then Inl ValueError
        else bnd (encode s) (\<lambda>b. Inr \<lparr>f_length = len, f_value = PBytes b\<rparr>)
    | PNone \<Rightarrow> Inr \<lparr>f_length = len, f_value = PNone\<rparr>
    | _ \<Rightarrow> Inl ValueError)"

text \<open>\<open>as_bytes\<close> returns the stored value as it is (bytes, or \<open>None\<close>).\<close>

definition FieldBinary_as_bytes :: "'f field \<Rightarrow> 'f pyval" where
  "FieldBinary_as_bytes f = f_value f"

subsection \<open>FieldJSON\<close>

definition FieldJSON_init :: "'f pylib \<Rightarrow> 'f pyval \<Rightarrow> nat \<Rightarrow> error + 'f field" where
  "FieldJSON_init L v len = (case v of
      PBytes bs \<Rightarrow>
        if length bs = len
        then bnd (decode bs) (\<lambda>strvalue.
             bnd (json_loads L
                    (case first_index strvalue 0 of
                       None \<Rightarrow> strvalue
                     | Some i \<Rightarrow> take i strvalue)) (\<lambda>j.
               Inr \<lparr>f_length = len, f_value = j\<rparr>))
        else Inl ValueError
    | _ \<Rightarrow>
        bnd (json_dumps L v) (\<lambda>strvalue.
        bnd (encode strvalue) (\<lambda>b.
          if length b > len then Inl ValueError
          else Inr \<lparr>f_length = len, f_value = v\<rparr>)))"

definition FieldJSON_as_bytes :: "'f pylib \<Rightarrow> 'f field \<Rightarrow> error + byte list" where
  "FieldJSON_as_bytes L f =
     bnd (json_dumps L (f_value f)) (\<lambda>s.
       encode (take (f_length f) (s @ replicate (f_length f) 0)))"

subsection \<open>FieldVarLenList\<close>

text \<open>The setter has no final \<open>else\<close>: for a value that is neither bytes nor a list the
  attribute \<open>_value\<close> is never assigned, which \<open>None\<close> in \<open>vl_value\<close> records.\<close>

record 'f varlenlist =
  vl_length :: nat
  vl_value :: "'f pyval option"

definition FieldVarLenList_init :: "'f pyval \<Rightarrow> nat \<Rightarrow> error + 'f varlenlist" where
  "FieldVarLenList_init v len = (case v of
      PBytes bs \<Rightarrow>
        if length bs = len
        then (case bs of
                [] \<Rightarrow> Inl IndexError
              | b0 # _ \<Rightarrow>
                  Inr \<lparr>vl_length = len,
                       vl_value = Some (PList (map (\<lambda>x. PBool (\<not> (x = 0)))
                                     (drop 1 (take (unat b0 + 1) bs))))\<rparr>)
        else Inl ValueError
    | PList xs \<Rightarrow>
        if int (length xs) > int len - 1 then Inl ValueError
        else Inr \<lparr>vl_length = len, vl_value = Some (PList xs)\<rparr>
    | _ \<Rightarrow> Inr \<lparr>vl_length = len, vl_value = None\<rparr>)"

definition FieldVarLenList_as_bytes :: "'f varlenlist \<Rightarrow> error + byte list" where
  "FieldVarLenList_as_bytes f = (case vl_value f of
      None \<Rightarrow> Inl AttributeError
    | Some v \<Rightarrow>
        bnd (py_len v) (\<lambda>n.
        bnd (byte_of_int (int n)) (\<lambda>out.
        bnd (case v of PList xs \<Rightarrow> bytes_of_list xs | _ \<Rightarrow> Inl TypeError) (\<lambda>b.
          Inr (take (vl_length f) (out @ b @ replicate 20 0))))))"

subsection \<open>FieldChecklistResponses\<close>

text \<open>The object's \<open>_value\<close> is a dict from question id to answer; \<open>None\<close> stands for
  the attribute not having been assigned.\<close>

record 'f checklist_responses =
  r_value :: "(int \<times> 'f pyval) list option"

definition NUM_RESPONSES :: nat where
  "NUM_RESPONSES = 5"

text \<open>\<open>v not in (0, 1, 2)\<close>, by Python's \<open>==\<close>.\<close>

definition eq_int :: "'f pylib \<Rightarrow> 'f pyval \<Rightarrow> int \<Rightarrow> bool" where
  "eq_int L v n = (case v of
      PInt m \<Rightarrow> m = n
    | PBool b \<Rightarrow> (if b then 1 else 0) = n
    | PFloat x \<Rightarrow> float_eq_int L x n
    | _ \<Rightarrow> False)"

definition not_in_012 :: "'f pylib \<Rightarrow> 'f pyval \<Rightarrow> bool" where
  "not_in_012 L v = (\<not> (eq_int L v 0 \<or> eq_int L v 1 \<or> eq_int L v 2))"

text \<open>\<open>d[k] = v\<close> on a dict with integer keys.\<close>

fun dict_set :: "(int \<times> 'v) list \<Rightarrow> int \<Rightarrow> 'v \<Rightarrow> (int \<times> 'v) list" where
  "dict_set [] k v = [(k, v)]"
| "dict_set ((k', v') # d) k v =
     (if k' = k then (k, v) # d else (k', v') # dict_set d k v)"

text \<open>The loop of the dict branch, started from \<open>self._value = {}\<close>.\<close>

fun responses_from_items ::
  "'f pylib \<Rightarrow> (int \<times> 'f pyval) list \<Rightarrow> ('f pyval \<times> 'f pyval) list
     \<Rightarrow> error + (int \<times> 'f pyval) list" where
  "responses_from_items L acc [] = Inr acc"
| "responses_from_items L acc ((k, v) # kvs) =
     (if not_in_012 L v then Inl ValueError
      else bnd (py_int L k) (\<lambda>ik. responses_from_items L (dict_set acc ik v) kvs))"

text \<open>The loop of the bytes branch. It assigns \<open>self._value[k] = v\<close> although the branch
  never created \<open>self._value\<close>: the lookup of the attribute raises.\<close>

fun responses_from_bytes ::
  "(int \<times> 'f pyval) list option \<Rightarrow> byte list \<Rightarrow> error + (int \<times> 'f pyval) list option" where
  "responses_from_bytes s [] = Inr s"
| "responses_from_bytes s (x # xs) =
     (let k = uint x AND 0x1f;
          v = drop_bit 5 (uint x) AND 0x7
      in case s of
           None \<Rightarrow> Inl AttributeError
         | Some d \<Rightarrow> responses_from_bytes (Some (dict_set d k (PInt v))) xs)"

text \<open>The first check builds its error message from \<open>value['responses']\<close>, which itself
  raises unless the value is a dict with that key.\<close>

definition length_error :: "'f pyval \<Rightarrow> error" where
  "length_error v = (case v of
      PDict d \<Rightarrow>
        (case map_of d (key ''responses'') of
           None \<Rightarrow> KeyError
         | Some r \<Rightarrow> (case py_len r of Inl e \<Rightarrow> e | Inr _ \<Rightarrow> ValueError))
    | _ \<Rightarrow> TypeError)"

definition FieldChecklistResponses_init :: "'f pylib \<Rightarrow> 'f pyval \<Rightarrow> error + 'f checklist_responses" where
  "FieldChecklistResponses_init L v =
     bnd (py_len v) (\<lambda>n.
       if n = NUM_RESPONSES
       then (case v of
               PDict d \<Rightarrow>
                 bnd (responses_from_items L [] d) (\<lambda>r. Inr \<lparr>r_value = Some r\<rparr>)
             | PBytes bs \<Rightarrow>
                 bnd (responses_from_bytes None bs) (\<lambda>r. Inr \<lparr>r_value = r\<rparr>)
             | _ \<Rightarrow> Inl ValueError)
       else Inl (length_error v))"

text \<open>\<open>v << 5 | k\<close> on the stored answer and question id.\<close>

definition lshift_or :: "'f pyval \<Rightarrow> int \<Rightarrow> error + 'f pyval" where
  "lshift_or v k = (case v of
      PInt n \<Rightarrow> Inr (PInt (push_bit 5 n OR k))
    | PBool b \<Rightarrow> Inr (PInt (push_bit 5 (if b then 1 else 0) OR k))
    | _ \<Rightarrow> Inl TypeError)"

fun responses_pack :: "byte list \<Rightarrow> (int \<times> 'f pyval) list \<Rightarrow> error + byte list" where
  "responses_pack out [] = Inr out"
| "responses_pack out ((k, v) # kvs) =
     bnd (lshift_or v k) (\<lambda>x.
     bnd (bytes_iadd out x) (\<lambda>out'. responses_pack out' kvs))"

definition FieldChecklistResponses_as_bytes :: "'f checklist_responses \<Rightarrow> error + byte list" where
  "FieldChecklistResponses_as_bytes f = (case r_value f of
      None \<Rightarrow> Inl AttributeError
    | Some d \<Rightarrow> responses_pack (replicate NUM_RESPONSES 0) d)"


subsection \<open>Position fields\<close>

text \<open>\<open>n / c\<close> for an int \<open>n\<close> and a float \<open>c\<close>, and \<open>v * c\<close> for a stored value
  \<open>v\<close> and a float \<open>c\<close>. The product with a float is a float whenever it is defined.\<close>

definition int_truediv :: "'f pylib \<Rightarrow> int \<Rightarrow> 'f \<Rightarrow> error + 'f pyval" where
  "int_truediv L n c =
     bnd (float_of_int L n) (\<lambda>x. bnd (float_truediv L x c) (\<lambda>q. Inr (PFloat q)))"

definition mul_float :: "'f pylib \<Rightarrow> 'f pyval \<Rightarrow> 'f \<Rightarrow> error + 'f pyval" where
  "mul_float L v c = (case v of
      PFloat x \<Rightarrow> Inr (PFloat (float_mul L x c))
    | PInt n \<Rightarrow> bnd (float_of_int L n) (\<lambda>x. Inr (PFloat (float_mul L x c)))
    | PBool b \<Rightarrow>
        bnd (float_of_int L (if b then 1 else 0)) (\<lambda>x. Inr (PFloat (float_mul L x c)))
    | _ \<Rightarrow> Inl TypeError)"

record 'f uwb_position =
  xpos :: "'f pyval"
  ypos :: "'f pyval"
  zpos :: "'f pyval"

definition BYTES_PER_DIM :: nat where
  "BYTES_PER_DIM = 3"

definition FieldUWBPosition_SIZE :: nat where
  "FieldUWBPosition_SIZE = 3 * BYTES_PER_DIM"

definition FieldUWBPosition_init :: "'f pylib \<Rightarrow> 'f pyval \<Rightarrow> error + 'f uwb_position" where
  "FieldUWBPosition_init L v = (case v of
      PDict d \<Rightarrow>
        bnd (getitem d (key ''xpos'')) (\<lambda>x.
        bnd (getitem d (key ''ypos'')) (\<lambda>y.
        bnd (getitem d (key ''zpos'')) (\<lambda>z.
          Inr \<lparr>xpos = x, ypos = y, zpos = z\<rparr>)))
    | PBytes bs \<Rightarrow>
        if length bs > FieldUWBPosition_SIZE then Inl ValueError
        else
          bnd (int_truediv L (from_bytes_signed (take BYTES_PER_DIM bs)) (float_1e3 L)) (\<lambda>x.
          bnd (int_truediv L
                 (from_bytes_signed (take BYTES_PER_DIM (drop BYTES_PER_DIM bs)))
                 (float_1e3 L)) (\<lambda>y.
          bnd (int_truediv L
                 (from_bytes_signed (take BYTES_PER_DIM (drop (2 * BYTES_PER_DIM) bs)))
                 (float_1e3 L)) (\<lambda>z.
            Inr \<lparr>xpos = x, ypos = y, zpos = z\<rparr>)))
    | _ \<Rightarrow> Inl ValueError)"

definition FieldUWBPosition_value :: "'f uwb_position \<Rightarrow> 'f pyval" where
  "FieldUWBPosition_value p =
     PDict [(key ''xpos'', xpos p), (key ''ypos'', ypos p), (key ''zpos'', zpos p)]"

text \<open>\<open>as_bytes\<close> calls \<open>to_bytes\<close> on the product itself.\<close>

definition FieldUWBPosition_as_bytes :: "'f pylib \<Rightarrow> 'f uwb_position \<Rightarrow> error + byte list" where
  "FieldUWBPosition_as_bytes L p =
     bnd (mul_float L (xpos p) (float_1e3 L)) (\<lambda>a.
     bnd (py_to_bytes a BYTES_PER_DIM True) (\<lambda>out1.
     bnd (mul_float L (ypos p) (float_1e3 L)) (\<lambda>b.
     bnd (py_to_bytes b BYTES_PER_DIM True) (\<lambda>out2.
     bnd (mul_float L (zpos p) (float_1e3 L)) (\<lambda>c.
     bnd (py_to_bytes c BYTES_PER_DIM True) (\<lambda>out3.
       Inr (out1 @ out2 @ out3)))))))"

record 'f gps_position =
  lat :: "'f pyval"
  lon :: "'f pyval"

definition BYTES_PER_COORD :: nat where
  "BYTES_PER_COORD = 4"

definition FieldGPSPosition_SIZE :: nat where
  "FieldGPSPosition_SIZE = 2 * BYTES_PER_COORD"

definition FieldGPSPosition_init :: "'f pylib \<Rightarrow> 'f pyval \<Rightarrow> error + 'f gps_position" where
  "FieldGPSPosition_init L v = (case v of
      PDict d \<Rightarrow>
        bnd (getitem d (key ''lat'')) (\<lambda>x.
        bnd (getitem d (key ''lon'')) (\<lambda>y.
          Inr \<lparr>lat = x, lon = y\<rparr>))
    | PBytes bs \<Rightarrow>
        if length bs > FieldGPSPosition_SIZE then Inl ValueError
        else
          bnd (int_truediv L (from_bytes_signed (take BYTES_PER_COORD bs)) (float_1e7 L)) (\<lambda>x.
          bnd (int_truediv L
                 (from_bytes_signed (take BYTES_PER_COORD (drop BYTES_PER_COORD bs)))
                 (float_1e7 L)) (\<lambda>y.
            Inr \<lparr>lat = x, lon = y\<rparr>))
    | _ \<Rightarrow> Inl ValueError)"

definition FieldGPSPosition_value :: "'f gps_position \<Rightarrow> 'f pyval" where
  "FieldGPSPosition_value p = PDict [(key ''lat'', lat p), (key ''lon'', lon p)]"

text \<open>Here the product goes through \<open>int(...)\<close> first.\<close>

definition FieldGPSPosition_as_bytes :: "'f pylib \<Rightarrow> 'f gps_position \<Rightarrow> error + byte list" where
  "FieldGPSPosition_as_bytes L p =
     bnd (mul_float L (lat p) (float_1e7 L)) (\<lambda>a.
     bnd (py_int L a) (\<lambda>n.
     bnd (to_bytes_signed n BYTES_PER_COORD) (\<lambda>out1.
     bnd (mul_float L (lon p) (float_1e7 L)) (\<lambda>b.
     bnd (py_int L b) (\<lambda>m.
     bnd (to_bytes_signed m BYTES_PER_COORD) (\<lambda>out2.
       Inr (out1 @ out2)))))))"

subsection \<open>The concrete field classes\<close>

definition FieldUID_SIZE :: nat where "FieldUID_SIZE = 4"
definition FieldTagID_SIZE :: nat where "FieldTagID_SIZE = 8"
definition FieldUsername_SIZE :: nat where "FieldUsername_SIZE = 16"
definition FieldPayloadLength_SIZE :: nat where "FieldPayloadLength_SIZE = 2"
definition FieldUserQuestion_SIZE :: nat where "FieldUserQuestion_SIZE = 4096"
definition FieldUserQuestionSegment_SIZE :: nat where "FieldUserQuestionSegment_SIZE = 31"
definition FieldChecklistData_SIZE :: nat where "FieldChecklistData_SIZE = 4096"
definition FieldChecklistSegment_SIZE :: nat where "FieldChecklistSegment_SIZE = 31"
definition FieldChecklistResponses_SIZE :: nat where "FieldChecklistResponses_SIZE = NUM_RESPONSES"
definition FieldFrameCounter_SIZE :: nat where "FieldFrameCounter_SIZE = 2"
definition FieldTimestamp_SIZE :: nat where "FieldTimestamp_SIZE = 4"
definition FieldVehicleName_SIZE :: nat where "FieldVehicleName_SIZE = 16"
definition FieldUserQuestionResponse_SIZE :: nat where "FieldUserQuestionResponse_SIZE = 10"

definition FieldUID :: "'f pyval \<Rightarrow> error + 'f field" where
  "FieldUID v = FieldInteger_init v FieldUID_SIZE"

definition FieldTagID :: "'f pyval \<Rightarrow> error + 'f field" where
  "FieldTagID v = FieldInteger_init v FieldTagID_SIZE"

definition FieldUsername :: "'f pyval \<Rightarrow> error + 'f field" where
  "FieldUsername v = FieldText_init v FieldUsername_SIZE"

definition FieldPayloadLength :: "'f pyval \<Rightarrow> error + 'f field" where
  "FieldPayloadLength v = FieldInteger_init v FieldPayloadLength_SIZE"

definition FieldUserQuestion :: "'f pylib \<Rightarrow> 'f pyval \<Rightarrow> error + 'f field" where
  "FieldUserQuestion L v = FieldJSON_init L v FieldUserQuestion_SIZE"

definition FieldUserQuestionSegment :: "'f pyval \<Rightarrow> error + 'f field" where
  "FieldUserQuestionSegment v = FieldBinary_init v FieldUserQuestionSegment_SIZE"

definition FieldChecklistData :: "'f pylib \<Rightarrow> 'f pyval \<Rightarrow> error + 'f field" where
  "FieldChecklistData L v = FieldJSON_init L v FieldChecklistData_SIZE"

definition FieldChecklistSegment :: "'f pyval \<Rightarrow> error + 'f field" where
  "FieldChecklistSegment v = FieldBinary_init v FieldChecklistSegment_SIZE"

definition FieldFrameCounter :: "'f pyval \<Rightarrow> error + 'f field" where
  "FieldFrameCounter v = FieldInteger_init v FieldFrameCounter_SIZE"

definition FieldTimestamp :: "'f pyval \<Rightarrow> error + 'f field" where
  "FieldTimestamp v = FieldInteger_init v FieldTimestamp_SIZE"

definition FieldVehicleName :: "'f pyval \<Rightarrow> error + 'f field" where
  "FieldVehicleName v = FieldText_init v FieldVehicleName_SIZE"

definition FieldUserQuestionResponse :: "'f pyval \<Rightarrow> error + 'f varlenlist" where
  "FieldUserQuestionResponse v = FieldVarLenList_init v FieldUserQuestionResponse_SIZE"


section \<open>Message codecs\<close>

text \<open>
  One constructor per message class, its arguments the attributes the class assigns:
  field objects for the attributes built from a field class, plain values for the rest
  (\<open>response\<close> keeps the value as assigned: an int from bytes, a bool from a dict).
  The class \<open>MsgUserQuestionSegment\<close> has no instances, since its \<open>__init__\<close> raises on
  every input (see \<open>MsgUserQuestionSegment_init\<close> below), and so has no constructor here.
\<close>

datatype 'f msg =
    MsgLoginRequest "'f field" "'f field"
      \<comment> \<open>uid, tagid\<close>
  | MsgLoginResponse "'f pyval" "'f field" "'f field" int
      \<comment> \<open>response, uid, username, profile\<close>
  | MsgLogoutNotification "'f field"
      \<comment> \<open>tagid\<close>
  | MsgChecklistUpdateStart int int "'f field"
      \<comment> \<open>segments, checklist_version, length\<close>
  | MsgChecklistUpdateSegment int int "'f field"
      \<comment> \<open>checklist_version, seq_no, segment\<close>
  | MsgChecklistUpdate int "'f field"
      \<comment> \<open>checklist_version, checklist_data\<close>
  | MsgChecklistResponses "'f field" "'f checklist_responses" int
      \<comment> \<open>tagid, responses, checklist_version\<close>
  | MsgChecklistVersionNotification int
      \<comment> \<open>checklist_version\<close>
  | MsgUserQuestionStart int int "'f field"
      \<comment> \<open>question_id, segments, length\<close>
  | MsgUserQuestion int "'f field"
      \<comment> \<open>question_id, user_question\<close>
  | MsgUserQuestionResponse "'f field" int "'f varlenlist"
      \<comment> \<open>tagid, question_id, responses\<close>
  | MsgImpactReport "'f field" int int
      \<comment> \<open>tagid, severity, accel_direction\<close>
  | MsgVehicleReport "'f field" "'f field" "'f uwb_position" "'f gps_position"
      \<comment> \<open>tagid, frame_counter, uwbpos, gpspos\<close>
  | MsgSetBlockStatus "'f field" bool
      \<comment> \<open>tagid, block_status\<close>
  | MsgTimeRequest "'f field"
      \<comment> \<open>tagid\<close>
  | MsgTimeSet "'f field"
      \<comment> \<open>timestamp\<close>
  | MsgTagConfig int int "'f field"
      \<comment> \<open>crash_sens, report_rate, vehicle_name\<close>

subsection \<open>The steps shared by the constructors\<close>

text \<open>\<open>if isinstance(value, str): value = json.loads(value)\<close>\<close>

definition load_if_str :: "'f pylib \<Rightarrow> 'f pyval \<Rightarrow> error + 'f pyval" where
  "load_if_str L v = (case v of PStr s \<Rightarrow> json_loads L s | _ \<Rightarrow> Inr v)"

text \<open>\<open>it = iter(value); if next(it) != self.TYPE: raise ValueError(self.TYPE)\<close>.
  The iterator is the list of bytes not yet consumed.\<close>

definition check_type :: "int \<Rightarrow> byte list \<Rightarrow> (byte list \<Rightarrow> error + 'a) \<Rightarrow> error + 'a" where
  "check_type t bs k = (case bs of
      [] \<Rightarrow> Inl StopIteration
    | b # it \<Rightarrow> if uint b = t then k it else Inl ValueError)"

text \<open>\<open>x = next(it)\<close>\<close>

definition next_byte :: "byte list \<Rightarrow> (int \<Rightarrow> byte list \<Rightarrow> error + 'a) \<Rightarrow> error + 'a" where
  "next_byte it k = (case it of [] \<Rightarrow> Inl StopIteration | b # it' \<Rightarrow> k (uint b) it')"

text \<open>\<open>x = F(bytes(islice(it, n)))\<close>\<close>

definition islice_field ::
  "('f pyval \<Rightarrow> error + 'b) \<Rightarrow> nat \<Rightarrow> byte list \<Rightarrow> ('b \<Rightarrow> byte list \<Rightarrow> error + 'a) \<Rightarrow> error + 'a" where
  "islice_field F n it k = bnd (F (PBytes (take n it))) (\<lambda>x. k x (drop n it))"

text \<open>\<open>assert next(it, None) is None\<close>\<close>

definition assert_end :: "byte list \<Rightarrow> 'a \<Rightarrow> error + 'a" where
  "assert_end it m = (if it = [] then Inr m else Inl AssertionError)"

text \<open>\<open>if 'type' in value and value['type'] != self.NAME: raise ValueError(...)\<close>\<close>

definition check_name :: "('f pyval \<times> 'f pyval) list \<Rightarrow> string \<Rightarrow> error + 'a \<Rightarrow> error + 'a" where
  "check_name d name k = (case map_of d (key ''type'') of
      None \<Rightarrow> k
    | Some t \<Rightarrow> if t = key name then k else Inl ValueError)"

text \<open>\<open>int(value[k])\<close>\<close>

definition int_item :: "'f pylib \<Rightarrow> ('f pyval \<times> 'f pyval) list \<Rightarrow> string \<Rightarrow> error + int" where
  "int_item L d k = bnd (getitem d (key k)) (py_int L)"

subsection \<open>Constructors\<close>

definition MsgLoginRequest_init :: "'f pylib \<Rightarrow> 'f pyval \<Rightarrow> error + 'f msg" where
  "MsgLoginRequest_init L v0 = bnd (load_if_str L v0) (\<lambda>v. case v of
      PBytes bs \<Rightarrow>
        check_type 1 bs (\<lambda>it.
        islice_field FieldUID FieldUID_SIZE it (\<lambda>uid it.
        islice_field FieldTagID FieldTagID_SIZE it (\<lambda>tagid it.
        assert_end it (MsgLoginRequest uid tagid))))
    | PDict d \<Rightarrow>
        check_name d ''login_request'' (
        bnd (getitem d (key ''uid'')) (\<lambda>x.
        bnd (FieldUID x) (\<lambda>uid.
        bnd (FieldTagID (dict_get d (key ''tagid''))) (\<lambda>tagid.
          Inr (MsgLoginRequest uid tagid)))))
    | _ \<Rightarrow> Inl ValueError)"

definition MsgLoginResponse_init :: "'f pylib \<Rightarrow> 'f pyval \<Rightarrow> error + 'f msg" where
  "MsgLoginResponse_init L v0 = bnd (load_if_str L v0) (\<lambda>v. case v of
      PBytes bs \<Rightarrow>
        check_type 2 bs (\<lambda>it.
        next_byte it (\<lambda>response it.
        islice_field FieldUID FieldUID_SIZE it (\<lambda>uid it.
        islice_field FieldUsername FieldUsername_SIZE it (\<lambda>username it.
        next_byte it (\<lambda>profile it.
        assert_end it (MsgLoginResponse (PInt response) uid username profile))))))
    | PDict d \<Rightarrow>
        check_name d ''login_response'' (
        bnd (getitem d (key ''response'')) (\<lambda>r.
        bnd (FieldUsername (dict_get d (key ''username''))) (\<lambda>username.
        bnd (FieldUID (dict_get d (key ''uid''))) (\<lambda>uid.
        bnd (int_item L d ''profile'') (\<lambda>profile.
          Inr (MsgLoginResponse (PBool (py_bool L r)) uid username profile))))))
    | _ \<Rightarrow> Inl ValueError)"

definition MsgLogoutNotification_init :: "'f pylib \<Rightarrow> 'f pyval \<Rightarrow> error + 'f msg" where
  "MsgLogoutNotification_init L v0 = bnd (load_if_str L v0) (\<lambda>v. case v of
      PBytes bs \<Rightarrow>
        check_type 3 bs (\<lambda>it.
        islice_field FieldTagID FieldTagID_SIZE it (\<lambda>tagid it.
        assert_end it (MsgLogoutNotification tagid)))
    | PDict d \<Rightarrow>
        check_name d ''logout_notification'' (
        bnd (FieldTagID (dict_get d (key ''tagid''))) (\<lambda>tagid.
          Inr (MsgLogoutNotification tagid)))
    | _ \<Rightarrow> Inl ValueError)"

definition MsgChecklistUpdateStart_init :: "'f pylib \<Rightarrow> 'f pyval \<Rightarrow> error + 'f msg" where
  "MsgChecklistUpdateStart_init L v0 = bnd (load_if_str L v0) (\<lambda>v. case v of
      PBytes bs \<Rightarrow>
        check_type 5 bs (\<lambda>it.
        next_byte it (\<lambda>segments it.
        next_byte it (\<lambda>checklist_version it.
        islice_field FieldPayloadLength FieldPayloadLength_SIZE it (\<lambda>len it.
        assert_end it (MsgChecklistUpdateStart segments checklist_version len)))))
    | PDict d \<Rightarrow>
        check_name d ''checklist_update_start'' (
        bnd (int_item L d ''segments'') (\<lambda>segments.
        bnd (int_item L d ''checklist_version'') (\<lambda>checklist_version.
        bnd (getitem d (key ''length'')) (\<lambda>x.
        bnd (FieldPayloadLength x) (\<lambda>len.
          Inr (MsgChecklistUpdateStart segments checklist_version len))))))
    | _ \<Rightarrow> Inl ValueError)"

definition MsgChecklistUpdateSegment_init :: "'f pylib \<Rightarrow> 'f pyval \<Rightarrow> error + 'f msg" where
  "MsgChecklistUpdateSegment_init L v0 = bnd (load_if_str L v0) (\<lambda>v. case v of
      PBytes bs \<Rightarrow>
        check_type 6 bs (\<lambda>it.
        next_byte it (\<lambda>checklist_version it.
        next_byte it (\<lambda>seq_no it.
        islice_field FieldChecklistSegment FieldChecklistSegment_SIZE it (\<lambda>segment it.
        assert_end it (MsgChecklistUpdateSegment checklist_version seq_no segment)))))
    | PDict d \<Rightarrow>
        check_name d ''checklist_update_segment'' (
        bnd (int_item L d ''checklist_version'') (\<lambda>checklist_version.
        bnd (int_item L d ''seq_no'') (\<lambda>seq_no.
        bnd (getitem d (key ''segment'')) (\<lambda>x.
        bnd (FieldChecklistSegment x) (\<lambda>segment.
          Inr (MsgChecklistUpdateSegment checklist_version seq_no segment))))))
    | _ \<Rightarrow> Inl ValueError)"

text \<open>The bytes branch names \<open>fc.FieldChecklistdData\<close>, an attribute the module
  \<open>field_codecs\<close> does not have; looking it up raises before anything is read.\<close>

definition MsgChecklistUpdate_init :: "'f pylib \<Rightarrow> 'f pyval \<Rightarrow> error + 'f msg" where
  "MsgChecklistUpdate_init L v0 = bnd (load_if_str L v0) (\<lambda>v. case v of
      PBytes bs \<Rightarrow>
        check_type 7 bs (\<lambda>it. Inl AttributeError)
    | PDict d \<Rightarrow>
        check_name d ''checklist_update'' (
        bnd (int_item L d ''checklist_version'') (\<lambda>checklist_version.
        bnd (getitem d (key ''checklist_data'')) (\<lambda>x.
        bnd (FieldChecklistData L x) (\<lambda>checklist_data.
          Inr (MsgChecklistUpdate checklist_version checklist_data)))))
    | _ \<Rightarrow> Inl ValueError)"

definition MsgChecklistResponses_init :: "'f pylib \<Rightarrow> 'f pyval \<Rightarrow> error + 'f msg" where
  "MsgChecklistResponses_init L v0 = bnd (load_if_str L v0) (\<lambda>v. case v of
      PBytes bs \<Rightarrow>
        check_type 8 bs (\<lambda>it.
        islice_field FieldTagID FieldTagID_SIZE it (\<lambda>tagid it.
        islice_field (FieldChecklistResponses_init L) FieldChecklistResponses_SIZE it
          (\<lambda>responses it.
        next_byte it (\<lambda>checklist_version it.
        assert_end it (MsgChecklistResponses tagid responses checklist_version)))))
    | PDict d \<Rightarrow>
        check_name d ''checklist_responses'' (
        bnd (FieldTagID (dict_get d (key ''tagid''))) (\<lambda>tagid.
        bnd (getitem d (key ''responses'')) (\<lambda>x.
        bnd (FieldChecklistResponses_init L x) (\<lambda>responses.
        bnd (int_item L d ''checklist_version'') (\<lambda>checklist_version.
          Inr (MsgChecklistResponses tagid responses checklist_version))))))
    | _ \<Rightarrow> Inl ValueError)"

definition MsgChecklistVersionNotification_init :: "'f pylib \<Rightarrow> 'f pyval \<Rightarrow> error + 'f msg" where
  "MsgChecklistVersionNotification_init L v0 = bnd (load_if_str L v0) (\<lambda>v. case v of
      PBytes bs \<Rightarrow>
        check_type 10 bs (\<lambda>it.
        next_byte it (\<lambda>checklist_version it.
        assert_end it (MsgChecklistVersionNotification checklist_version)))
    | PDict d \<Rightarrow>
        check_name d ''checklist_version_notification'' (
        bnd (int_item L d ''checklist_version'') (\<lambda>checklist_version.
          Inr (MsgChecklistVersionNotification checklist_version)))
    | _ \<Rightarrow> Inl ValueError)"

definition MsgUserQuestionStart_init :: "'f pylib \<Rightarrow> 'f pyval \<Rightarrow> error + 'f msg" where
  "MsgUserQuestionStart_init L v0 = bnd (load_if_str L v0) (\<lambda>v. case v of
      PBytes bs \<Rightarrow>
        check_type 11 bs (\<lambda>it.
        next_byte it (\<lambda>question_id it.
        next_byte it (\<lambda>segments it.
        islice_field FieldPayloadLength FieldPayloadLength_SIZE it (\<lambda>len it.
        assert_end it (MsgUserQuestionStart question_id segments len)))))
    | PDict d \<Rightarrow>
        check_name d ''user_question_start'' (
        bnd (int_item L d ''question_id'') (\<lambda>question_id.
        bnd (int_item L d ''segments'') (\<lambda>segments.
        bnd (getitem d (key ''length'')) (\<lambda>x.
        bnd (FieldPayloadLength x) (\<lambda>len.
          Inr (MsgUserQuestionStart question_id segments len))))))
    | _ \<Rightarrow> Inl ValueError)"

text \<open>Both branches name \<open>fc.FieldUserQuestionData\<close>, which \<open>field_codecs\<close> does not
  define (the segment class there is \<open>FieldUserQuestionSegment\<close>): the lookup raises
  before the argument of the call is evaluated.\<close>

definition MsgUserQuestionSegment_init :: "'f pylib \<Rightarrow> 'f pyval \<Rightarrow> error + 'f msg" where
  "MsgUserQuestionSegment_init L v0 = bnd (load_if_str L v0) (\<lambda>v. case v of
      PBytes bs \<Rightarrow>
        check_type 12 bs (\<lambda>it.
        next_byte it (\<lambda>question_id it.
        next_byte it (\<lambda>seq_no it. Inl AttributeError)))
    | PDict d \<Rightarrow>
        check_name d ''user_question_segment'' (
        bnd (int_item L d ''question_id'') (\<lambda>question_id.
        bnd (int_item L d ''seq_no'') (\<lambda>seq_no. Inl AttributeError)))
    | _ \<Rightarrow> Inl ValueError)"

definition MsgUserQuestion_init :: "'f pylib \<Rightarrow> 'f pyval \<Rightarrow> error + 'f msg" where
  "MsgUserQuestion_init L v0 = bnd (load_if_str L v0) (\<lambda>v. case v of
      PBytes bs \<Rightarrow>
        check_type 13 bs (\<lambda>it.
        next_byte it (\<lambda>question_id it.
        islice_field (FieldUserQuestion L) FieldUserQuestion_SIZE it (\<lambda>user_question it.
        assert_end it (MsgUserQuestion question_id user_question))))
    | PDict d \<Rightarrow>
        check_name d ''user_question'' (
        bnd (int_item L d ''question_id'') (\<lambda>question_id.
        bnd (getitem d (key ''user_question'')) (\<lambda>x.
        bnd (FieldUserQuestion L x) (\<lambda>user_question.
          Inr (MsgUserQuestion question_id user_question)))))
    | _ \<Rightarrow> Inl ValueError)"

text \<open>The bytes branch hands \<open>FieldUserQuestionResponse\<close> a single \<open>next(it)\<close>, an int.\<close>

definition MsgUserQuestionResponse_init :: "'f pylib \<Rightarrow> 'f pyval \<Rightarrow> error + 'f msg" where
  "MsgUserQuestionResponse_init L v0 = bnd (load_if_str L v0) (\<lambda>v. case v of
      PBytes bs \<Rightarrow>
        check_type 14 bs (\<lambda>it.
        islice_field FieldTagID FieldTagID_SIZE it (\<lambda>tagid it.
        next_byte it (\<lambda>question_id it.
        next_byte it (\<lambda>r it.
        bnd (FieldUserQuestionResponse (PInt r)) (\<lambda>responses.
        assert_end it (MsgUserQuestionResponse tagid question_id responses))))))
    | PDict d \<Rightarrow>
        check_name d ''user_question_response'' (
        bnd (FieldTagID (dict_get d (key ''tagid''))) (\<lambda>tagid.
        bnd (int_item L d ''question_id'') (\<lambda>question_id.
        bnd (getitem d (key ''responses'')) (\<lambda>x.
        bnd (FieldUserQuestionResponse x) (\<lambda>responses.
          Inr (MsgUserQuestionResponse tagid question_id responses))))))
    | _ \<Rightarrow> Inl ValueError)"

definition MsgImpactReport_init :: "'f pylib \<Rightarrow> 'f pyval \<Rightarrow> error + 'f msg" where
  "MsgImpactReport_init L v0 = bnd (load_if_str L v0) (\<lambda>v. case v of
      PBytes bs \<Rightarrow>
        check_type 15 bs (\<lambda>it.
        islice_field FieldTagID FieldTagID_SIZE it (\<lambda>tagid it.
        next_byte it (\<lambda>severity it.
        next_byte it (\<lambda>accel_direction it.
        assert_end it (MsgImpactReport tagid severity accel_direction)))))
    | PDict d \<Rightarrow>
        check_name d ''impact_report'' (
        bnd (FieldTagID (dict_get d (key ''tagid''))) (\<lambda>tagid.
        bnd (int_item L d ''severity'') (\<lambda>severity.
        bnd (int_item L d ''accel_direction'') (\<lambda>accel_direction.
          Inr (MsgImpactReport tagid severity accel_direction)))))
    | _ \<Rightarrow> Inl ValueError)"

definition MsgVehicleReport_init :: "'f pylib \<Rightarrow> 'f pyval \<Rightarrow> error + 'f msg" where
  "MsgVehicleReport_init L v0 = bnd (load_if_str L v0) (\<lambda>v. case v of
      PBytes bs \<Rightarrow>
        check_type 16 bs (\<lambda>it.
        islice_field FieldTagID FieldTagID_SIZE it (\<lambda>tagid it.
        islice_field FieldFrameCounter FieldFrameCounter_SIZE it (\<lambda>frame_counter it.
        islice_field (FieldUWBPosition_init L) FieldUWBPosition_SIZE it (\<lambda>uwbpos it.
        islice_field (FieldGPSPosition_init L) FieldGPSPosition_SIZE it (\<lambda>gpspos it.
        assert_end it (MsgVehicleReport tagid frame_counter uwbpos gpspos))))))
    | PDict d \<Rightarrow>
        check_name d ''vehicle_report'' (
        bnd (FieldTagID (dict_get d (key ''tagid''))) (\<lambda>tagid.
        bnd (getitem d (key ''frame_counter'')) (\<lambda>x.
        bnd (FieldFrameCounter x) (\<lambda>frame_counter.
        bnd (getitem d (key ''uwbpos'')) (\<lambda>y.
        bnd (FieldUWBPosition_init L y) (\<lambda>uwbpos.
        bnd (getitem d (key ''gpspos'')) (\<lambda>z.
        bnd (FieldGPSPosition_init L z) (\<lambda>gpspos.
          Inr (MsgVehicleReport tagid frame_counter uwbpos gpspos)))))))))
    | _ \<Rightarrow> Inl ValueError)"

definition MsgSetBlockStatus_init :: "'f pylib \<Rightarrow> 'f pyval \<Rightarrow> error + 'f msg" where
  "MsgSetBlockStatus_init L v0 = bnd (load_if_str L v0) (\<lambda>v. case v of
      PBytes bs \<Rightarrow>
        check_type 17 bs (\<lambda>it.
        islice_field FieldTagID FieldTagID_SIZE it (\<lambda>tagid it.
        next_byte it (\<lambda>b it.
        assert_end it (MsgSetBlockStatus tagid (\<not> (b = 0))))))
    | PDict d \<Rightarrow>
        check_name d ''set_block_status'' (
        bnd (FieldTagID (dict_get d (key ''tagid''))) (\<lambda>tagid.
        bnd (getitem d (key ''block_status'')) (\<lambda>b.
          Inr (MsgSetBlockStatus tagid (py_bool L b)))))
    | _ \<Rightarrow> Inl ValueError)"

definition MsgTimeRequest_init :: "'f pylib \<Rightarrow> 'f pyval \<Rightarrow> error + 'f msg" where
  "MsgTimeRequest_init L v0 = bnd (load_if_str L v0) (\<lambda>v. case v of
      PBytes bs \<Rightarrow>
        check_type 18 bs (\<lambda>it.
        islice_field FieldTagID FieldTagID_SIZE it (\<lambda>tagid it.
        assert_end it (MsgTimeRequest tagid)))
    | PDict d \<Rightarrow>
        check_name d ''time_request'' (
        bnd (FieldTagID (dict_get d (key ''tagid''))) (\<lambda>tagid.
          Inr (MsgTimeRequest tagid)))
    | _ \<Rightarrow> Inl ValueError)"

definition MsgTimeSet_init :: "'f pylib \<Rightarrow> 'f pyval \<Rightarrow> error + 'f msg" where
  "MsgTimeSet_init L v0 = bnd (load_if_str L v0) (\<lambda>v. case v of
      PBytes bs \<Rightarrow>
        check_type 19 bs (\<lambda>it.
        islice_field FieldTimestamp FieldTimestamp_SIZE it (\<lambda>timestamp it.
        assert_end it (MsgTimeSet timestamp)))
    | PDict d \<Rightarrow>
        check_name d ''time_set'' (
        bnd (getitem d (key ''timestamp'')) (\<lambda>x.
        bnd (FieldTimestamp x) (\<lambda>timestamp.
          Inr (MsgTimeSet timestamp))))
    | _ \<Rightarrow> Inl ValueError)"

text \<open>\<open>MsgTagConfig\<close> alone has no JSON-text branch: a str falls through to the final
  \<open>else\<close>.\<close>

definition MsgTagConfig_init :: "'f pylib \<Rightarrow> 'f pyval \<Rightarrow> error + 'f msg" where
  "MsgTagConfig_init L v = (case v of
      PBytes bs \<Rightarrow>
        check_type 20 bs (\<lambda>it.
        next_byte it (\<lambda>crash_sens it.
        next_byte it (\<lambda>report_rate it.
        islice_field FieldVehicleName FieldVehicleName_SIZE it (\<lambda>vehicle_name it.
        assert_end it (MsgTagConfig crash_sens report_rate vehicle_name)))))
    | PDict d \<Rightarrow>
        check_name d ''tag_config'' (
        bnd (int_item L d ''crash_sens'') (\<lambda>crash_sens.
        bnd (int_item L d ''report_rate'') (\<lambda>report_rate.
        bnd (getitem d (key ''vehicle_name'')) (\<lambda>x.
        bnd (FieldVehicleName x) (\<lambda>vehicle_name.
          Inr (MsgTagConfig crash_sens report_rate vehicle_name))))))
    | _ \<Rightarrow> Inl ValueError)"


subsection \<open>Serializers\<close>

text \<open>\<open>as_bytes\<close>: \<open>out = bytes([self.TYPE])\<close> followed by one \<open>out += ...\<close> per attribute,
  in the order of the method's body.\<close>

fun as_bytes :: "'f pylib \<Rightarrow> 'f msg \<Rightarrow> error + byte list" where
  "as_bytes L (MsgLoginRequest uid tagid) =
     bnd (FieldInteger_as_bytes uid) (\<lambda>a.
     bnd (FieldInteger_as_bytes tagid) (\<lambda>b.
       Inr ([1] @ a @ b)))"
| "as_bytes L (MsgLoginResponse response uid username profile) =
     bnd (byte_of response) (\<lambda>a.
     bnd (FieldText_as_bytes username) (\<lambda>b.
     bnd (FieldInteger_as_bytes uid) (\<lambda>c.
     bnd (byte_of_int profile) (\<lambda>d.
       Inr ([2] @ a @ b @ c @ d)))))"
| "as_bytes L (MsgLogoutNotification tagid) =
     bnd (FieldInteger_as_bytes tagid) (\<lambda>a.
       Inr ([3] @ a))"
| "as_bytes L (MsgChecklistUpdateStart segments checklist_version len) =
     bnd (byte_of_int segments) (\<lambda>a.
     bnd (byte_of_int checklist_version) (\<lambda>b.
     bnd (FieldInteger_as_bytes len) (\<lambda>c.
       Inr ([5] @ a @ b @ c))))"
| "as_bytes L (MsgChecklistUpdateSegment checklist_version seq_no segment) =
     bnd (byte_of_int checklist_version) (\<lambda>a.
     bnd (byte_of_int seq_no) (\<lambda>b.
       bytes_iadd ([6] @ a @ b) (FieldBinary_as_bytes segment)))"
| "as_bytes L (MsgChecklistUpdate checklist_version checklist_data) =
     bnd (byte_of_int checklist_version) (\<lambda>a.
     bnd (FieldJSON_as_bytes L checklist_data) (\<lambda>b.
       Inr ([7] @ a @ b)))"
| "as_bytes L (MsgChecklistResponses tagid responses checklist_version) =
     bnd (FieldInteger_as_bytes tagid) (\<lambda>a.
     bnd (FieldChecklistResponses_as_bytes responses) (\<lambda>b.
     bnd (byte_of_int checklist_version) (\<lambda>c.
       Inr ([8] @ a @ b @ c))))"
| "as_bytes L (MsgChecklistVersionNotification checklist_version) =
     bnd (byte_of_int checklist_version) (\<lambda>a.
       Inr ([10] @ a))"
| "as_bytes L (MsgUserQuestionStart question_id segments len) =
     bnd (byte_of_int question_id) (\<lambda>a.
     bnd (byte_of_int segments) (\<lambda>b.
     bnd (FieldInteger_as_bytes len) (\<lambda>c.
       Inr ([11] @ a @ b @ c))))"
| "as_bytes L (MsgUserQuestion question_id user_question) =
     bnd (byte_of_int question_id) (\<lambda>a.
     bnd (FieldJSON_as_bytes L user_question) (\<lambda>b.
       Inr ([13] @ a @ b)))"
| "as_bytes L (MsgUserQuestionResponse tagid question_id responses) =
     bnd (FieldInteger_as_bytes tagid) (\<lambda>a.
     bnd (byte_of_int question_id) (\<lambda>b.
     bnd (FieldVarLenList_as_bytes responses) (\<lambda>c.
       Inr ([14] @ a @ b @ c))))"
| "as_bytes L (MsgImpactReport tagid severity accel_direction) =
     bnd (FieldInteger_as_bytes tagid) (\<lambda>a.
     bnd (byte_of_int severity) (\<lambda>b.
       Inl NameError))"
| "as_bytes L (MsgVehicleReport tagid frame_counter uwbpos gpspos) =
     bnd (FieldInteger_as_bytes tagid) (\<lambda>a.
     bnd (FieldInteger_as_bytes frame_counter) (\<lambda>b.
     bnd (FieldUWBPosition_as_bytes L uwbpos) (\<lambda>c.
     bnd (FieldGPSPosition_as_bytes L gpspos) (\<lambda>d.
       Inr ([16] @ a @ b @ c @ d)))))"
| "as_bytes L (MsgSetBlockStatus tagid block_status) =
     bnd (FieldInteger_as_bytes tagid) (\<lambda>a.
     bnd (byte_of (PBool block_status :: 'f pyval)) (\<lambda>b.
       Inr ([17] @ a @ b)))"
| "as_bytes L (MsgTimeRequest tagid) =
     bnd (FieldInteger_as_bytes tagid) (\<lambda>a.
       Inr ([18] @ a))"
| "as_bytes L (MsgTimeSet timestamp) =
     bnd (FieldInteger_as_bytes timestamp) (\<lambda>a.
       Inr ([19] @ a))"
| "as_bytes L (MsgTagConfig crash_sens report_rate vehicle_name) =
     bnd (byte_of_int crash_sens) (\<lambda>a.
     bnd (byte_of_int report_rate) (\<lambda>b.
     bnd (FieldText_as_bytes vehicle_name) (\<lambda>c.
       Inr ([20] @ a @ b @ c))))"

text \<open>The \<open>value\<close> property of the two field classes whose attribute may be missing.\<close>

definition FieldChecklistResponses_value :: "'f checklist_responses \<Rightarrow> error + 'f pyval" where
  "FieldChecklistResponses_value f = (case r_value f of
      None \<Rightarrow> Inl AttributeError
    | Some d \<Rightarrow> Inr (PDict (map (\<lambda>(k, v). (PInt k, v)) d)))"

definition FieldVarLenList_value :: "'f varlenlist \<Rightarrow> error + 'f pyval" where
  "FieldVarLenList_value f = (case vl_value f of None \<Rightarrow> Inl AttributeError | Some v \<Rightarrow> Inr v)"

text \<open>\<open>as_dict\<close>: the dict literal of each class, key by key.\<close>

fun as_dict :: "'f msg \<Rightarrow> error + 'f pyval" where
  "as_dict (MsgLoginRequest uid tagid) =
     Inr (PDict [(key ''type'', key ''login_request''),
                 (key ''uid'', f_value uid),
                 (key ''tagid'', f_value tagid)])"
| "as_dict (MsgLoginResponse response uid username profile) =
     Inr (PDict [(key ''type'', key ''login_response''),
                 (key ''response'', response),
                 (key ''username'', f_value username),
                 (key ''uid'', f_value uid),
                 (key ''profile'', PInt profile)])"
| "as_dict (MsgLogoutNotification tagid) =
     Inr (PDict [(key ''type'', key ''logout_notification''),
                 (key ''tagid'', f_value tagid)])"
| "as_dict (MsgChecklistUpdateStart segments checklist_version len) =
     Inr (PDict [(key ''type'', key ''checklist_update_start''),
                 (key ''segments'', PInt segments),
                 (key ''checklist_version'', PInt checklist_version),
                 (key ''length'', f_value len)])"
| "as_dict (MsgChecklistUpdateSegment checklist_version seq_no segment) =
     Inr (PDict [(key ''type'', key ''checklist_update_segment''),
                 (key ''checklist_version'', PInt checklist_version),
                 (key ''seq_no'', PInt seq_no),
                 (key ''segment'', f_value segment)])"
| "as_dict (MsgChecklistUpdate checklist_version checklist_data) =
     Inr (PDict [(key ''type'', key ''checklist_update''),
                 (key ''checklist_version'', PInt checklist_version),
                 (key ''checklist_data'', f_value checklist_data)])"
| "as_dict (MsgChecklistResponses tagid responses checklist_version) =
     bnd (FieldChecklistResponses_value responses) (\<lambda>r.
       Inr (PDict [(key ''type'', key ''checklist_responses''),
                   (key ''tagid'', f_value tagid),
                   (key ''responses'', r),
                   (key ''checklist_version'', PInt checklist_version)]))"
| "as_dict (MsgChecklistVersionNotification checklist_version) =
     Inr (PDict [(key ''type'', key ''checklist_version_notification''),
                 (key ''checklist_version'', PInt checklist_version)])"
| "as_dict (MsgUserQuestionStart question_id segments len) =
     Inr (PDict [(key ''type'', key ''user_question_start''),
                 (key ''question_id'', PInt question_id),
                 (key ''segments'', PInt segments),
                 (key ''length'', f_value len)])"
| "as_dict (MsgUserQuestion question_id user_question) =
     Inr (PDict [(key ''type'', key ''user_question''),
                 (key ''question_id'', PInt question_id),
                 (key ''user_question'', f_value user_question)])"
| "as_dict (MsgUserQuestionResponse tagid question_id responses) =
     bnd (FieldVarLenList_value responses) (\<lambda>r.
       Inr (PDict [(key ''type'', key ''user_question_response''),
                   (key ''tagid'', f_value tagid),
                   (key ''question_id'', PInt question_id),
                   (key ''responses'', r)]))"
| "as_dict (MsgImpactReport tagid severity accel_direction) =
     Inr (PDict [(key ''type'', key ''impact_report''),
                 (key ''tagid'', f_value tagid),
                 (key ''severity'', PInt severity),
                 (key ''accel_direction'', PInt accel_direction)])"
| "as_dict (MsgVehicleReport tagid frame_counter uwbpos gpspos) =
     Inr (PDict [(key ''type'', key ''vehicle_report''),
                 (key ''tagid'', f_value tagid),
                 (key ''frame_counter'', f_value frame_counter),
                 (key ''uwbpos'', FieldUWBPosition_value uwbpos),
                 (key ''gpspos'', FieldGPSPosition_value gpspos)])"
| "as_dict (MsgSetBlockStatus tagid block_status) =
     Inr (PDict [(key ''type'', key ''set_block_status''),
                 (key ''tagid'', f_value tagid),
                 (key ''block_status'', PBool block_status)])"
| "as_dict (MsgTimeRequest tagid) =
     Inr (PDict [(key ''type'', key ''time_request''),
                 (key ''tagid'', f_value tagid)])"
| "as_dict (MsgTimeSet timestamp) =
     Inr (PDict [(key ''type'', key ''time_set''),
                 (key ''timestamp'', f_value timestamp)])"
| "as_dict (MsgTagConfig crash_sens report_rate vehicle_name) =
     Inr (PDict [(key ''crash_sens'', PInt crash_sens),
                 (key ''report_rate'', PInt report_rate),
                 (key ''vehicle_name'', f_value vehicle_name)])"

text \<open>\<open>as_json\<close> is \<open>json.dumps(self.as_dict())\<close>, except in \<open>MsgLoginRequest\<close>, which
  calls a method \<open>self.dict()\<close> that the class does not have.\<close>

fun as_json :: "'f pylib \<Rightarrow> 'f msg \<Rightarrow> error + str" where
  "as_json L (MsgLoginRequest uid tagid) = Inl AttributeError"
| "as_json L m = bnd (as_dict m) (json_dumps L)"

subsection \<open>Dispatch\<close>

definition parse_dict :: "'f pylib \<Rightarrow> 'f pyval \<Rightarrow> error + 'f msg" where
  "parse_dict L msg = (case msg of
      PDict d \<Rightarrow>
        bnd (getitem d (key ''type'')) (\<lambda>t.
          if t = key ''login_request'' then MsgLoginRequest_init L msg
          else if t = key ''login_response'' then MsgLoginResponse_init L msg
          else if t = key ''logout_notification'' then MsgLogoutNotification_init L msg
          else if t = key ''checklist_update_start'' then MsgChecklistUpdateStart_init L msg
          else if t = key ''checklist_update_segment'' then MsgChecklistUpdateSegment_init L msg
          else if t = key ''checklist_update'' then MsgChecklistUpdate_init L msg
          else if t = key ''checklist_responses'' then MsgChecklistResponses_init L msg
          else if t = key ''checklist_version_notification''
            then MsgChecklistVersionNotification_init L msg
          else if t = key ''user_question_start'' then MsgUserQuestionStart_init L msg
          else if t = key ''user_question_segment'' then MsgUserQuestionSegment_init L msg
          else if t = key ''user_question'' then MsgUserQuestion_init L msg
          else if t = key ''user_question_response'' then MsgUserQuestionResponse_init L msg
          else if t = key ''impact_report'' then MsgImpactReport_init L msg
          else if t = key ''vehicle_report'' then MsgVehicleReport_init L msg
          else if t = key ''tag_config'' then MsgTagConfig_init L msg
          else if t = key ''set_block_status'' then MsgSetBlockStatus_init L msg
          else if t = key ''time_request'' then MsgTimeRequest_init L msg
          else if t = key ''time_set'' then MsgTimeSet_init L msg
          else Inl Exception)
    | _ \<Rightarrow> Inl TypeError)"

text \<open>The table of \<open>parse_bytes\<close>, entry by entry as the dict literal lists them.\<close>

definition typecode_to_msg :: "(int \<times> ('f pylib \<Rightarrow> 'f pyval \<Rightarrow> error + 'f msg)) list" where
  "typecode_to_msg =
     [(1, MsgLoginRequest_init),
      (2, MsgLoginResponse_init),
      (3, MsgLogoutNotification_init),
      (5, MsgChecklistUpdateStart_init),
      (6, MsgChecklistUpdateSegment_init),
      (8, MsgChecklistResponses_init),
      (10, MsgChecklistVersionNotification_init),
      (11, MsgUserQuestionStart_init),
      (12, MsgUserQuestionSegment_init),
      (14, MsgUserQuestionResponse_init),
      (15, MsgImpactReport_init),
      (16, MsgVehicleReport_init),
      (20, MsgTagConfig_init),
      (17, MsgSetBlockStatus_init),
      (18, MsgTimeRequest_init),
      (19, MsgTimeSet_init)]"

definition parse_bytes :: "'f pylib \<Rightarrow> byte list \<Rightarrow> error + 'f msg" where
  "parse_bytes L msg = (case msg of
      [] \<Rightarrow> Inl IndexError
    | b # _ \<Rightarrow>
        (case map_of typecode_to_msg (uint b) of
           None \<Rightarrow> Inl KeyError
         | Some init \<Rightarrow> init L (PBytes msg)))"

definition parse_json :: "'f pylib \<Rightarrow> str \<Rightarrow> error + 'f msg" where
  "parse_json L msg = bnd (json_loads L msg) (parse_dict L)"

subsection \<open>Splitters\<close>

text \<open>The \<open>while True\<close> loop of \<open>checklist_splitter\<close>: \<open>it\<close> is what the iterator has
  left, \<open>segments\<close> the list built so far.\<close>

function checklist_segments :: "byte list \<Rightarrow> byte list list \<Rightarrow> byte list list" where
  "checklist_segments it segments =
     (let segment = take FieldChecklistSegment_SIZE it;
          it' = drop FieldChecklistSegment_SIZE it
      in if length segment < FieldChecklistSegment_SIZE
         then segments @ [segment @ replicate (FieldChecklistSegment_SIZE - length segment) 0]
         else checklist_segments it' (segments @ [segment]))"
  by pat_completeness auto
termination
  by (relation "measure (\<lambda>(it, segments). length it)")
     (auto simp: FieldChecklistSegment_SIZE_def)

text \<open>Running a list of constructor calls in order, stopping at the first that raises.\<close>

fun collect :: "(error + 'a) list \<Rightarrow> error + 'a list" where
  "collect [] = Inr []"
| "collect (x # xs) = bnd x (\<lambda>y. bnd (collect xs) (\<lambda>ys. Inr (y # ys)))"

definition checklist_splitter :: "'f pylib \<Rightarrow> 'f pyval \<Rightarrow> 'f pyval \<Rightarrow> error + 'f msg list" where
  "checklist_splitter L checklist_data checklist_version =
     bnd (json_dumps L checklist_data) (\<lambda>s.
     bnd (encode s) (\<lambda>databytes.
       let segments = checklist_segments databytes []
       in bnd (MsgChecklistUpdateStart_init L
                 (PDict [(key ''segments'', PInt (int (length segments))),
                         (key ''checklist_version'', checklist_version),
                         (key ''length'', PInt (int (length databytes)))])) (\<lambda>start.
          bnd (collect
                 (map (\<lambda>(seq_no, segment).
                         MsgChecklistUpdateSegment_init L
                           (PDict [(key ''checklist_version'', checklist_version),
                                   (key ''seq_no'', PInt (int seq_no)),
                                   (key ''segment'', PBytes segment)]))
                      (enumerate 0 segments))) (\<lambda>rest.
            Inr (start # rest)))))"

text \<open>\<open>user_question_splitter\<close> keeps the \<open>islice\<close> object itself in \<open>segment\<close> (its
  sibling wraps it in \<open>bytes(...)\<close>) and then takes \<open>len(segment)\<close>; an \<open>islice\<close> object
  has no length, so the first pass of the loop raises.\<close>

definition user_question_splitter :: "'f pylib \<Rightarrow> 'f pyval \<Rightarrow> 'f pyval \<Rightarrow> error + 'f msg list" where
  "user_question_splitter L user_question_data question_id =
     bnd (json_dumps L user_question_data) (\<lambda>s.
     bnd (encode s) (\<lambda>databytes.
       Inl TypeError))"


subsection \<open>The class attribute \<open>NAME\<close>\<close>

fun NAME :: "'f msg \<Rightarrow> string" where
  "NAME (MsgLoginRequest _ _) = ''login_request''"
| "NAME (MsgLoginResponse _ _ _ _) = ''login_response''"
| "NAME (MsgLogoutNotification _) = ''logout_notification''"
| "NAME (MsgChecklistUpdateStart _ _ _) = ''checklist_update_start''"
| "NAME (MsgChecklistUpdateSegment _ _ _) = ''checklist_update_segment''"
| "NAME (MsgChecklistUpdate _ _) = ''checklist_update''"
| "NAME (MsgChecklistResponses _ _ _) = ''checklist_responses''"
| "NAME (MsgChecklistVersionNotification _) = ''checklist_version_notification''"
| "NAME (MsgUserQuestionStart _ _ _) = ''user_question_start''"
| "NAME (MsgUserQuestion _ _) = ''user_question''"
| "NAME (MsgUserQuestionResponse _ _ _) = ''user_question_response''"
| "NAME (MsgImpactReport _ _ _) = ''impact_report''"
| "NAME (MsgVehicleReport _ _ _ _) = ''vehicle_report''"
| "NAME (MsgSetBlockStatus _ _) = ''set_block_status''"
| "NAME (MsgTimeRequest _) = ''time_request''"
| "NAME (MsgTimeSet _) = ''time_set''"
| "NAME (MsgTagConfig _ _ _) = ''tag_config''"

section \<open>Rules for evaluating the model\<close>

lemmas SIZE_defs =
  FieldUID_SIZE_def FieldTagID_SIZE_def FieldUsername_SIZE_def FieldPayloadLength_SIZE_def
  FieldUserQuestion_SIZE_def FieldUserQuestionSegment_SIZE_def FieldChecklistData_SIZE_def
  FieldChecklistSegment_SIZE_def FieldChecklistResponses_SIZE_def NUM_RESPONSES_def
  FieldFrameCounter_SIZE_def FieldTimestamp_SIZE_def FieldVehicleName_SIZE_def
  FieldUserQuestionResponse_SIZE_def FieldUWBPosition_SIZE_def BYTES_PER_DIM_def
  FieldGPSPosition_SIZE_def BYTES_PER_COORD_def

lemmas step_defs =
  bnd_def load_if_str_def check_type_def next_byte_def islice_field_def assert_end_def
  check_name_def int_item_def getitem_def dict_get_def py_int_def py_bool_def py_len_def
  byte_of_def byte_of_int_def bytes_iadd_def

lemmas field_defs =
  FieldUID_def FieldTagID_def FieldUsername_def FieldPayloadLength_def FieldUserQuestion_def
  FieldUserQuestionSegment_def FieldChecklistData_def FieldChecklistSegment_def
  FieldFrameCounter_def FieldTimestamp_def FieldVehicleName_def FieldUserQuestionResponse_def
  FieldInteger_init_def FieldText_init_def FieldBinary_init_def FieldJSON_init_def
  FieldVarLenList_init_def FieldInteger_as_bytes_def FieldText_as_bytes_def
  FieldBinary_as_bytes_def FieldJSON_as_bytes_def FieldVarLenList_as_bytes_def
  py_to_bytes_def to_bytes_def to_bytes_signed_def utf8_char_def decode_def is_cont_def
  str_index_def

lemma replicate_num [simp]: "replicate (numeral k) x = x # replicate (pred_numeral k) x"
  by (simp add: numeral_eq_Suc)

lemma le_bytes_num [simp]:
  "le_bytes (numeral k) n = word_of_int n # le_bytes (pred_numeral k) (n div 256)"
  by (simp add: numeral_eq_Suc)

declare checklist_segments.simps [simp del]

section \<open>Facts about the builtins\<close>

lemma length_le_bytes [simp]: "length (le_bytes k n) = k"
  by (induction k arbitrary: n) simp_all

lemma from_bytes_le_bytes: "from_bytes (le_bytes k n) = n mod 256 ^ k"
proof (induction k arbitrary: n)
  case 0
  then show ?case by simp
next
  case (Suc k)
  have "uint (word_of_int n :: byte) = n mod 256"
    by (simp add: uint_word_of_int)
  then show ?case
    using Suc zmod_zmult2_eq [of "256 ^ k" n 256] by simp
qed

lemma encode_ascii: "list_all (\<lambda>c. c < 128) s \<Longrightarrow> encode s = Inr (map of_nat s)"
  by (induction s) (simp_all add: utf8_char_def bnd_def)

lemma decode_nat_ascii: "list_all (\<lambda>c. c < 128) s \<Longrightarrow> decode_nat s = Inr s"
  by (induction s) (simp_all add: bnd_def)

lemma unat_of_nat_ascii:
  "list_all (\<lambda>c. c < 128) s \<Longrightarrow> map unat (map of_nat s :: byte list) = s"
  by (induction s) (simp_all add: unat_of_nat)

lemma first_index_append_zero:
  "0 \<notin> set s \<Longrightarrow> first_index (s @ 0 # r) 0 = Some (length s)"
  by (induction s) simp_all

lemma collect_map:
  "list_all (\<lambda>x. f x = Inr (g x)) xs \<Longrightarrow> collect (map f xs) = Inr (map g xs)"
  by (induction xs) (simp_all add: bnd_def)

lemma list_all_enumerate:
  "list_all P xs \<Longrightarrow> list_all (\<lambda>(i, x). P x) (enumerate n xs)"
  by (induction xs arbitrary: n) simp_all

section \<open>Missing keys read with a default\<close>

lemma FieldTagID_missing:
  "map_of d (key ''tagid'') = None \<Longrightarrow>
   FieldTagID (dict_get d (key ''tagid'')) = Inr \<lparr>f_length = 8, f_value = PNone\<rparr>"
  by (simp add: FieldTagID_def dict_get_def FieldInteger_init_def FieldTagID_SIZE_def)

lemma None_as_bytes [simp]:
  "FieldInteger_as_bytes \<lparr>f_length = n, f_value = PNone\<rparr> = Inl AttributeError"
  by (simp add: FieldInteger_as_bytes_def py_to_bytes_def)

lemma FieldUID_missing:
  "map_of d (key ''uid'') = None \<Longrightarrow>
   FieldUID (dict_get d (key ''uid'')) = Inr \<lparr>f_length = 4, f_value = PNone\<rparr>"
  by (simp add: FieldUID_def dict_get_def FieldInteger_init_def FieldUID_SIZE_def)

text \<open>One lemma per class that reads an integer-field key with \<open>value.get(key, None)\<close>:
  what the constructor returns when the key is missing and the other keys are fine, and
  what \<open>as_bytes\<close> does with the record.\<close>

lemma login_request_without_tagid:
  assumes "map_of d (key ''tagid'') = None"
      and "map_of d (key ''type'') \<in> {None, Some (key ''login_request'')}"
      and "getitem d (key ''uid'') = Inr x" and "FieldUID x = Inr u"
  shows "MsgLoginRequest_init L (PDict d)
           = Inr (MsgLoginRequest u \<lparr>f_length = 8, f_value = PNone\<rparr>)
       \<and> isl (as_bytes L (MsgLoginRequest u \<lparr>f_length = 8, f_value = PNone\<rparr>))"
  using assms(2-) FieldTagID_missing [OF assms(1)]
  by (auto simp: MsgLoginRequest_init_def load_if_str_def bnd_def check_name_def
        split: sum.splits)

lemma login_response_without_uid:
  assumes "map_of d (key ''uid'') = None"
      and "map_of d (key ''type'') \<in> {None, Some (key ''login_response'')}"
      and "getitem d (key ''response'') = Inr r"
      and "FieldUsername (dict_get d (key ''username'')) = Inr n"
      and "int_item L d ''profile'' = Inr p"
  shows "MsgLoginResponse_init L (PDict d)
           = Inr (MsgLoginResponse (PBool (py_bool L r)) \<lparr>f_length = 4, f_value = PNone\<rparr> n p)
       \<and> isl (as_bytes L
              (MsgLoginResponse (PBool (py_bool L r)) \<lparr>f_length = 4, f_value = PNone\<rparr> n p))"
  using assms(2-) FieldUID_missing [OF assms(1)]
  by (auto simp: MsgLoginResponse_init_def load_if_str_def bnd_def check_name_def
        split: sum.splits)

lemma logout_notification_without_tagid:
  assumes "map_of d (key ''tagid'') = None"
      and "map_of d (key ''type'') \<in> {None, Some (key ''logout_notification'')}"
  shows "MsgLogoutNotification_init L (PDict d)
           = Inr (MsgLogoutNotification \<lparr>f_length = 8, f_value = PNone\<rparr>)
       \<and> as_bytes L (MsgLogoutNotification \<lparr>f_length = 8, f_value = PNone\<rparr>)
           = Inl AttributeError"
  using assms(2-) FieldTagID_missing [OF assms(1)]
  by (auto simp: MsgLogoutNotification_init_def load_if_str_def bnd_def check_name_def)

lemma checklist_responses_without_tagid:
  assumes "map_of d (key ''tagid'') = None"
      and "map_of d (key ''type'') \<in> {None, Some (key ''checklist_responses'')}"
      and "getitem d (key ''responses'') = Inr x"
      and "FieldChecklistResponses_init L x = Inr r"
      and "int_item L d ''checklist_version'' = Inr v"
  shows "MsgChecklistResponses_init L (PDict d)
           = Inr (MsgChecklistResponses \<lparr>f_length = 8, f_value = PNone\<rparr> r v)
       \<and> as_bytes L (MsgChecklistResponses \<lparr>f_length = 8, f_value = PNone\<rparr> r v)
           = Inl AttributeError"
  using assms(2-) FieldTagID_missing [OF assms(1)]
  by (auto simp: MsgChecklistResponses_init_def load_if_str_def bnd_def check_name_def)

lemma user_question_response_without_tagid:
  assumes "map_of d (key ''tagid'') = None"
      and "map_of d (key ''type'') \<in> {None, Some (key ''user_question_response'')}"
      and "int_item L d ''question_id'' = Inr q"
      and "getitem d (key ''responses'') = Inr x"
      and "FieldUserQuestionResponse x = Inr r"
  shows "MsgUserQuestionResponse_init L (PDict d)
           = Inr (MsgUserQuestionResponse \<lparr>f_length = 8, f_value = PNone\<rparr> q r)
       \<and> as_bytes L (MsgUserQuestionResponse \<lparr>f_length = 8, f_value = PNone\<rparr> q r)
           = Inl AttributeError"
  using assms(2-) FieldTagID_missing [OF assms(1)]
  by (auto simp: MsgUserQuestionResponse_init_def load_if_str_def bnd_def check_name_def)

lemma impact_report_without_tagid:
  assumes "map_of d (key ''tagid'') = None"
      and "map_of d (key ''type'') \<in> {None, Some (key ''impact_report'')}"
      and "int_item L d ''severity'' = Inr s"
      and "int_item L d ''accel_direction'' = Inr a"
  shows "MsgImpactReport_init L (PDict d)
           = Inr (MsgImpactReport \<lparr>f_length = 8, f_value = PNone\<rparr> s a)
       \<and> as_bytes L (MsgImpactReport \<lparr>f_length = 8, f_value = PNone\<rparr> s a)
           = Inl AttributeError"
  using assms(2-) FieldTagID_missing [OF assms(1)]
  by (auto simp: MsgImpactReport_init_def load_if_str_def bnd_def check_name_def)

lemma vehicle_report_without_tagid:
  assumes "map_of d (key ''tagid'') = None"
      and "map_of d (key ''type'') \<in> {None, Some (key ''vehicle_report'')}"
      and "getitem d (key ''frame_counter'') = Inr x" and "FieldFrameCounter x = Inr c"
      and "getitem d (key ''uwbpos'') = Inr y" and "FieldUWBPosition_init L y = Inr u"
      and "getitem d (key ''gpspos'') = Inr z" and "FieldGPSPosition_init L z = Inr g"
  shows "MsgVehicleReport_init L (PDict d)
           = Inr (MsgVehicleReport \<lparr>f_length = 8, f_value = PNone\<rparr> c u g)
       \<and> as_bytes L (MsgVehicleReport \<lparr>f_length = 8, f_value = PNone\<rparr> c u g)
           = Inl AttributeError"
  using assms(2-) FieldTagID_missing [OF assms(1)]
  by (auto simp: MsgVehicleReport_init_def load_if_str_def bnd_def check_name_def)

lemma set_block_status_without_tagid:
  assumes "map_of d (key ''tagid'') = None"
      and "map_of d (key ''type'') \<in> {None, Some (key ''set_block_status'')}"
      and "getitem d (key ''block_status'') = Inr b"
  shows "MsgSetBlockStatus_init L (PDict d)
           = Inr (MsgSetBlockStatus \<lparr>f_length = 8, f_value = PNone\<rparr> (py_bool L b))
       \<and> as_bytes L (MsgSetBlockStatus \<lparr>f_length = 8, f_value = PNone\<rparr> (py_bool L b))
           = Inl AttributeError"
  using assms(2-) FieldTagID_missing [OF assms(1)]
  by (auto simp: MsgSetBlockStatus_init_def load_if_str_def bnd_def check_name_def)

lemma time_request_without_tagid:
  assumes "map_of d (key ''tagid'') = None"
      and "map_of d (key ''type'') \<in> {None, Some (key ''time_request'')}"
  shows "MsgTimeRequest_init L (PDict d)
           = Inr (MsgTimeRequest \<lparr>f_length = 8, f_value = PNone\<rparr>)
       \<and> as_bytes L (MsgTimeRequest \<lparr>f_length = 8, f_value = PNone\<rparr>)
           = Inl AttributeError"
  using assms(2-) FieldTagID_missing [OF assms(1)]
  by (auto simp: MsgTimeRequest_init_def load_if_str_def bnd_def check_name_def)

text \<open>
  C10. A message class that reads an integer-field key with \<open>value.get(key, None)\<close>
  accepts a mapping that omits the key: the field object stores \<open>None\<close>, and the missing
  key is reported only when the record is serialized. There are nine such reads, \<open>tagid\<close>
  in \<open>login_request\<close>, \<open>logout_notification\<close>, \<open>checklist_responses\<close>,
  \<open>user_question_response\<close>, \<open>impact_report\<close>, \<open>vehicle_report\<close>, \<open>set_block_status\<close> and
  \<open>time_request\<close>, and \<open>uid\<close> in \<open>login_response\<close>. For each of them: if the mapping omits
  the key, its \<open>type\<close> key is absent or names the class, and the reads of the other keys
  succeed, then the constructor returns the record whose field for the omitted key has
  the value \<open>None\<close>, and \<open>as_bytes\<close> of that record raises. Where \<open>tagid\<close> is the first
  field serialized the exception is \<open>AttributeError\<close> (\<open>None\<close> has no \<open>to_bytes\<close>).
\<close>

theorem missing_integer_key_raises_at_serialization:
  "(map_of dreq (key ''tagid'') = None
      \<and> map_of dreq (key ''type'') \<in> {None, Some (key ''login_request'')}
      \<and> getitem dreq (key ''uid'') = Inr x \<and> FieldUID x = Inr u
    \<longrightarrow> MsgLoginRequest_init L (PDict dreq)
          = Inr (MsgLoginRequest u \<lparr>f_length = 8, f_value = PNone\<rparr>)
        \<and> isl (as_bytes L (MsgLoginRequest u \<lparr>f_length = 8, f_value = PNone\<rparr>)))
   \<and> (map_of dresp (key ''uid'') = None
      \<and> map_of dresp (key ''type'') \<in> {None, Some (key ''login_response'')}
      \<and> getitem dresp (key ''response'') = Inr r
      \<and> FieldUsername (dict_get dresp (key ''username'')) = Inr n
      \<and> int_item L dresp ''profile'' = Inr p
    \<longrightarrow> MsgLoginResponse_init L (PDict dresp)
          = Inr (MsgLoginResponse (PBool (py_bool L r))
                   \<lparr>f_length = 4, f_value = PNone\<rparr> n p)
        \<and> isl (as_bytes L (MsgLoginResponse (PBool (py_bool L r))
                   \<lparr>f_length = 4, f_value = PNone\<rparr> n p)))
   \<and> (map_of dout (key ''tagid'') = None
      \<and> map_of dout (key ''type'') \<in> {None, Some (key ''logout_notification'')}
    \<longrightarrow> MsgLogoutNotification_init L (PDict dout)
          = Inr (MsgLogoutNotification \<lparr>f_length = 8, f_value = PNone\<rparr>)
        \<and> as_bytes L (MsgLogoutNotification \<lparr>f_length = 8, f_value = PNone\<rparr>)
          = Inl AttributeError)
   \<and> (map_of dchk (key ''tagid'') = None
      \<and> map_of dchk (key ''type'') \<in> {None, Some (key ''checklist_responses'')}
      \<and> getitem dchk (key ''responses'') = Inr xc
      \<and> FieldChecklistResponses_init L xc = Inr rc
      \<and> int_item L dchk ''checklist_version'' = Inr v
    \<longrightarrow> MsgChecklistResponses_init L (PDict dchk)
          = Inr (MsgChecklistResponses \<lparr>f_length = 8, f_value = PNone\<rparr> rc v)
        \<and> as_bytes L (MsgChecklistResponses \<lparr>f_length = 8, f_value = PNone\<rparr> rc v)
          = Inl AttributeError)
   \<and> (map_of dans (key ''tagid'') = None
      \<and> map_of dans (key ''type'') \<in> {None, Some (key ''user_question_response'')}
      \<and> int_item L dans ''question_id'' = Inr q
      \<and> getitem dans (key ''responses'') = Inr xa
      \<and> FieldUserQuestionResponse xa = Inr ra
    \<longrightarrow> MsgUserQuestionResponse_init L (PDict dans)
          = Inr (MsgUserQuestionResponse \<lparr>f_length = 8, f_value = PNone\<rparr> q ra)
        \<and> as_bytes L (MsgUserQuestionResponse \<lparr>f_length = 8, f_value = PNone\<rparr> q ra)
          = Inl AttributeError)
   \<and> (map_of dimp (key ''tagid'') = None
      \<and> map_of dimp (key ''type'') \<in> {None, Some (key ''impact_report'')}
      \<and> int_item L dimp ''severity'' = Inr s
      \<and> int_item L dimp ''accel_direction'' = Inr a
    \<longrightarrow> MsgImpactReport_init L (PDict dimp)
          = Inr (MsgImpactReport \<lparr>f_length = 8, f_value = PNone\<rparr> s a)
        \<and> as_bytes L (MsgImpactReport \<lparr>f_length = 8, f_value = PNone\<rparr> s a)
          = Inl AttributeError)
   \<and> (map_of dveh (key ''tagid'') = None
      \<and> map_of dveh (key ''type'') \<in> {None, Some (key ''vehicle_report'')}
      \<and> getitem dveh (key ''frame_counter'') = Inr xf \<and> FieldFrameCounter xf = Inr c
      \<and> getitem dveh (key ''uwbpos'') = Inr xu \<and> FieldUWBPosition_init L xu = Inr pu
      \<and> getitem dveh (key ''gpspos'') = Inr xg \<and> FieldGPSPosition_init L xg = Inr pg
    \<longrightarrow> MsgVehicleReport_init L (PDict dveh)
          = Inr (MsgVehicleReport \<lparr>f_length = 8, f_value = PNone\<rparr> c pu pg)
        \<and> as_bytes L (MsgVehicleReport \<lparr>f_length = 8, f_value = PNone\<rparr> c pu pg)
          = Inl AttributeError)
   \<and> (map_of dblk (key ''tagid'') = None
      \<and> map_of dblk (key ''type'') \<in> {None, Some (key ''set_block_status'')}
      \<and> getitem dblk (key ''block_status'') = Inr b
    \<longrightarrow> MsgSetBlockStatus_init L (PDict dblk)
          = Inr (MsgSetBlockStatus \<lparr>f_length = 8, f_value = PNone\<rparr> (py_bool L b))
        \<and> as_bytes L (MsgSetBlockStatus \<lparr>f_length = 8, f_value = PNone\<rparr> (py_bool L b))
          = Inl AttributeError)
   \<and> (map_of dtime (key ''tagid'') = None
      \<and> map_of dtime (key ''type'') \<in> {None, Some (key ''time_request'')}
    \<longrightarrow> MsgTimeRequest_init L (PDict dtime)
          = Inr (MsgTimeRequest \<lparr>f_length = 8, f_value = PNone\<rparr>)
        \<and> as_bytes L (MsgTimeRequest \<lparr>f_length = 8, f_value = PNone\<rparr>)
          = Inl AttributeError)"
  by (intro conjI;
      (rule impI, elim conjE,
       rule login_request_without_tagid login_response_without_uid
            logout_notification_without_tagid checklist_responses_without_tagid
            user_question_response_without_tagid impact_report_without_tagid
            vehicle_report_without_tagid set_block_status_without_tagid
            time_request_without_tagid;
       assumption))

theorem missing_integer_key_raises_at_serialization_witness:
  "\<forall>L :: real pylib.
     (MsgLoginRequest_init L (PDict [(key ''uid'', PInt 7)])
        = Inr (MsgLoginRequest \<lparr>f_length = 4, f_value = PInt 7\<rparr>
                 \<lparr>f_length = 8, f_value = PNone\<rparr>)
      \<and> isl (as_bytes L (MsgLoginRequest \<lparr>f_length = 4, f_value = PInt 7\<rparr>
                 \<lparr>f_length = 8, f_value = PNone\<rparr>)))
   \<and> (MsgLoginResponse_init L
        (PDict [(key ''response'', PBool True), (key ''username'', key ''bob''),
                (key ''profile'', PInt 1)])
        = Inr (MsgLoginResponse (PBool True) \<lparr>f_length = 4, f_value = PNone\<rparr>
                 \<lparr>f_length = 16, f_value = key ''bob''\<rparr> 1)
      \<and> isl (as_bytes L (MsgLoginResponse (PBool True) \<lparr>f_length = 4, f_value = PNone\<rparr>
                 \<lparr>f_length = 16, f_value = key ''bob''\<rparr> 1)))
   \<and> (MsgLogoutNotification_init L (PDict [(key ''type'', key ''logout_notification'')])
        = Inr (MsgLogoutNotification \<lparr>f_length = 8, f_value = PNone\<rparr>)
      \<and> as_bytes L (MsgLogoutNotification \<lparr>f_length = 8, f_value = PNone\<rparr>)
        = Inl AttributeError)
   \<and> (MsgChecklistResponses_init L
        (PDict [(key ''responses'',
                 PDict [(PInt 0, PInt 0), (PInt 1, PInt 1), (PInt 2, PInt 2),
                        (PInt 3, PInt 0), (PInt 4, PInt 1)]),
                (key ''checklist_version'', PInt 1)])
        = Inr (MsgChecklistResponses \<lparr>f_length = 8, f_value = PNone\<rparr>
                 \<lparr>r_value = Some [(0, PInt 0), (1, PInt 1), (2, PInt 2), (3, PInt 0),
                                   (4, PInt 1)]\<rparr> 1)
      \<and> as_bytes L (MsgChecklistResponses \<lparr>f_length = 8, f_value = PNone\<rparr>
                 \<lparr>r_value = Some [(0, PInt 0), (1, PInt 1), (2, PInt 2), (3, PInt 0),
                                   (4, PInt 1)]\<rparr> 1)
        = Inl AttributeError)
   \<and> (MsgUserQuestionResponse_init L
        (PDict [(key ''question_id'', PInt 2),
                (key ''responses'', PList [PBool True, PBool False])])
        = Inr (MsgUserQuestionResponse \<lparr>f_length = 8, f_value = PNone\<rparr> 2
                 \<lparr>vl_length = 10, vl_value = Some (PList [PBool True, PBool False])\<rparr>)
      \<and> as_bytes L (MsgUserQuestionResponse \<lparr>f_length = 8, f_value = PNone\<rparr> 2
                 \<lparr>vl_length = 10, vl_value = Some (PList [PBool True, PBool False])\<rparr>)
        = Inl AttributeError)
   \<and> (MsgImpactReport_init L
        (PDict [(key ''severity'', PInt 3), (key ''accel_direction'', PInt 1)])
        = Inr (MsgImpactReport \<lparr>f_length = 8, f_value = PNone\<rparr> 3 1)
      \<and> as_bytes L (MsgImpactReport \<lparr>f_length = 8, f_value = PNone\<rparr> 3 1)
        = Inl AttributeError)
   \<and> (MsgVehicleReport_init L
        (PDict [(key ''frame_counter'', PInt 9),
                (key ''uwbpos'',
                 PDict [(key ''xpos'', PFloat 1.234), (key ''ypos'', PFloat (- 2.5)),
                        (key ''zpos'', PFloat 0)]),
                (key ''gpspos'',
                 PDict [(key ''lat'', PFloat 40.7128), (key ''lon'', PFloat (- 74.006))])])
        = Inr (MsgVehicleReport \<lparr>f_length = 8, f_value = PNone\<rparr>
                 \<lparr>f_length = 2, f_value = PInt 9\<rparr>
                 \<lparr>xpos = PFloat 1.234, ypos = PFloat (- 2.5), zpos = PFloat 0\<rparr>
                 \<lparr>lat = PFloat 40.7128, lon = PFloat (- 74.006)\<rparr>)
      \<and> as_bytes L (MsgVehicleReport \<lparr>f_length = 8, f_value = PNone\<rparr>
                 \<lparr>f_length = 2, f_value = PInt 9\<rparr>
                 \<lparr>xpos = PFloat 1.234, ypos = PFloat (- 2.5), zpos = PFloat 0\<rparr>
                 \<lparr>lat = PFloat 40.7128, lon = PFloat (- 74.006)\<rparr>)
        = Inl AttributeError)
   \<and> (MsgSetBlockStatus_init L (PDict [(key ''block_status'', PBool True)])
        = Inr (MsgSetBlockStatus \<lparr>f_length = 8, f_value = PNone\<rparr> True)
      \<and> as_bytes L (MsgSetBlockStatus \<lparr>f_length = 8, f_value = PNone\<rparr> True)
        = Inl AttributeError)
   \<and> (MsgTimeRequest_init L (PDict [])
        = Inr (MsgTimeRequest \<lparr>f_length = 8, f_value = PNone\<rparr>)
      \<and> as_bytes L (MsgTimeRequest \<lparr>f_length = 8, f_value = PNone\<rparr>)
        = Inl AttributeError)"
proof
  fix L :: "real pylib"
  note T = missing_integer_key_raises_at_serialization [where L = L]
  note ev = getitem_def dict_get_def int_item_def bnd_def py_int_def py_len_def
    field_defs SIZE_defs
  let ?dreq = "[(key ''uid'', PInt 7)] :: (real pyval \<times> real pyval) list"
  have "map_of ?dreq (key ''tagid'') = None
      \<and> map_of ?dreq (key ''type'') \<in> {None, Some (key ''login_request'')}
      \<and> getitem ?dreq (key ''uid'') = Inr (PInt 7)
      \<and> FieldUID (PInt 7 :: real pyval) = Inr \<lparr>f_length = 4, f_value = PInt 7\<rparr>"
    by (simp add: ev)
  note w1 = T [THEN conjunct1, rule_format, OF this]
  let ?dresp = "[(key ''response'', PBool True), (key ''username'', key ''bob''),
                 (key ''profile'', PInt 1)] :: (real pyval \<times> real pyval) list"
  have "map_of ?dresp (key ''uid'') = None
      \<and> map_of ?dresp (key ''type'') \<in> {None, Some (key ''login_response'')}
      \<and> getitem ?dresp (key ''response'') = Inr (PBool True)
      \<and> FieldUsername (dict_get ?dresp (key ''username''))
          = Inr \<lparr>f_length = 16, f_value = key ''bob''\<rparr>
      \<and> int_item L ?dresp ''profile'' = Inr 1"
    by (simp add: ev)
  note w2 = T [THEN conjunct2, THEN conjunct1, rule_format, OF this]
  let ?dout = "[(key ''type'', key ''logout_notification'')]
                 :: (real pyval \<times> real pyval) list"
  have "map_of ?dout (key ''tagid'') = None
      \<and> map_of ?dout (key ''type'') \<in> {None, Some (key ''logout_notification'')}"
    by simp
  note w3 = T [THEN conjunct2, THEN conjunct2, THEN conjunct1, rule_format, OF this]
  let ?answers = "PDict [(PInt 0, PInt 0), (PInt 1, PInt 1), (PInt 2, PInt 2),
                         (PInt 3, PInt 0), (PInt 4, PInt 1)] :: real pyval"
  let ?dchk = "[(key ''responses'', ?answers), (key ''checklist_version'', PInt 1)]"
  have "map_of ?dchk (key ''tagid'') = None
      \<and> map_of ?dchk (key ''type'') \<in> {None, Some (key ''checklist_responses'')}
      \<and> getitem ?dchk (key ''responses'') = Inr ?answers
      \<and> FieldChecklistResponses_init L ?answers
          = Inr \<lparr>r_value = Some [(0, PInt 0), (1, PInt 1), (2, PInt 2), (3, PInt 0),
                                  (4, PInt 1)]\<rparr>
      \<and> int_item L ?dchk ''checklist_version'' = Inr 1"
    by (simp add: ev FieldChecklistResponses_init_def not_in_012_def eq_int_def)
  note w4 = T [THEN conjunct2, THEN conjunct2, THEN conjunct2, THEN conjunct1, rule_format,
    OF this]
  let ?bools = "PList [PBool True, PBool False] :: real pyval"
  let ?dans = "[(key ''question_id'', PInt 2), (key ''responses'', ?bools)]"
  have "map_of ?dans (key ''tagid'') = None
      \<and> map_of ?dans (key ''type'') \<in> {None, Some (key ''user_question_response'')}
      \<and> int_item L ?dans ''question_id'' = Inr 2
      \<and> getitem ?dans (key ''responses'') = Inr ?bools
      \<and> FieldUserQuestionResponse ?bools = Inr \<lparr>vl_length = 10, vl_value = Some ?bools\<rparr>"
    by (simp add: ev)
  note w5 = T [THEN conjunct2, THEN conjunct2, THEN conjunct2, THEN conjunct2, THEN conjunct1,
    rule_format, OF this]
  let ?dimp = "[(key ''severity'', PInt 3), (key ''accel_direction'', PInt 1)]
                 :: (real pyval \<times> real pyval) list"
  have "map_of ?dimp (key ''tagid'') = None
      \<and> map_of ?dimp (key ''type'') \<in> {None, Some (key ''impact_report'')}
      \<and> int_item L ?dimp ''severity'' = Inr 3
      \<and> int_item L ?dimp ''accel_direction'' = Inr 1"
    by (simp add: ev)
  note w6 = T [THEN conjunct2, THEN conjunct2, THEN conjunct2, THEN conjunct2, THEN conjunct2,
    THEN conjunct1, rule_format, OF this]
  let ?uwb = "PDict [(key ''xpos'', PFloat 1.234), (key ''ypos'', PFloat (- 2.5)),
                     (key ''zpos'', PFloat 0)] :: real pyval"
  let ?gps = "PDict [(key ''lat'', PFloat 40.7128), (key ''lon'', PFloat (- 74.006))]
                :: real pyval"
  let ?dveh = "[(key ''frame_counter'', PInt 9), (key ''uwbpos'', ?uwb), (key ''gpspos'', ?gps)]"
  have "map_of ?dveh (key ''tagid'') = None
      \<and> map_of ?dveh (key ''type'') \<in> {None, Some (key ''vehicle_report'')}
      \<and> getitem ?dveh (key ''frame_counter'') = Inr (PInt 9)
      \<and> FieldFrameCounter (PInt 9 :: real pyval) = Inr \<lparr>f_length = 2, f_value = PInt 9\<rparr>
      \<and> getitem ?dveh (key ''uwbpos'') = Inr ?uwb
      \<and> FieldUWBPosition_init L ?uwb
          = Inr \<lparr>xpos = PFloat 1.234, ypos = PFloat (- 2.5), zpos = PFloat 0\<rparr>
      \<and> getitem ?dveh (key ''gpspos'') = Inr ?gps
      \<and> FieldGPSPosition_init L ?gps
          = Inr \<lparr>lat = PFloat 40.7128, lon = PFloat (- 74.006)\<rparr>"
    by (simp add: ev FieldUWBPosition_init_def FieldGPSPosition_init_def)
  note w7 = T [THEN conjunct2, THEN conjunct2, THEN conjunct2, THEN conjunct2, THEN conjunct2,
    THEN conjunct2, THEN conjunct1, rule_format, OF this]
  let ?dblk = "[(key ''block_status'', PBool True)] :: (real pyval \<times> real pyval) list"
  have "map_of ?dblk (key ''tagid'') = None
      \<and> map_of ?dblk (key ''type'') \<in> {None, Some (key ''set_block_status'')}
      \<and> getitem ?dblk (key ''block_status'') = Inr (PBool True)"
    by (simp add: ev)
  note w8 = T [THEN conjunct2, THEN conjunct2, THEN conjunct2, THEN conjunct2, THEN conjunct2,
    THEN conjunct2, THEN conjunct2, THEN conjunct1, rule_format, OF this]
  let ?dtime = "[] :: (real pyval \<times> real pyval) list"
  have "map_of ?dtime (key ''tagid'') = None
      \<and> map_of ?dtime (key ''type'') \<in> {None, Some (key ''time_request'')}"
    by simp
  note w9 = T [THEN conjunct2, THEN conjunct2, THEN conjunct2, THEN conjunct2, THEN conjunct2,
    THEN conjunct2, THEN conjunct2, THEN conjunct2, rule_format, OF this]
  from w1 w2 w3 w4 w5 w6 w7 w8 w9
  show "(MsgLoginRequest_init L (PDict [(key ''uid'', PInt 7)])
        = Inr (MsgLoginRequest \<lparr>f_length = 4, f_value = PInt 7\<rparr>
                 \<lparr>f_length = 8, f_value = PNone\<rparr>)
      \<and> isl (as_bytes L (MsgLoginRequest \<lparr>f_length = 4, f_value = PInt 7\<rparr>
                 \<lparr>f_length = 8, f_value = PNone\<rparr>)))
   \<and> (MsgLoginResponse_init L
        (PDict [(key ''response'', PBool True), (key ''username'', key ''bob''),
                (key ''profile'', PInt 1)])
        = Inr (MsgLoginResponse (PBool True) \<lparr>f_length = 4, f_value = PNone\<rparr>
                 \<lparr>f_length = 16, f_value = key ''bob''\<rparr> 1)
      \<and> isl (as_bytes L (MsgLoginResponse (PBool True) \<lparr>f_length = 4, f_value = PNone\<rparr>
                 \<lparr>f_length = 16, f_value = key ''bob''\<rparr> 1)))
   \<and> (MsgLogoutNotification_init L (PDict [(key ''type'', key ''logout_notification'')])
        = Inr (MsgLogoutNotification \<lparr>f_length = 8, f_value = PNone\<rparr>)
      \<and> as_bytes L (MsgLogoutNotification \<lparr>f_length = 8, f_value = PNone\<rparr>)
        = Inl AttributeError)
   \<and> (MsgChecklistResponses_init L
        (PDict [(key ''responses'',
                 PDict [(PInt 0, PInt 0), (PInt 1, PInt 1), (PInt 2, PInt 2),
                        (PInt 3, PInt 0), (PInt 4, PInt 1)]),
                (key ''checklist_version'', PInt 1)])
        = Inr (MsgChecklistResponses \<lparr>f_length = 8, f_value = PNone\<rparr>
                 \<lparr>r_value = Some [(0, PInt 0), (1, PInt 1), (2, PInt 2), (3, PInt 0),
                                   (4, PInt 1)]\<rparr> 1)
      \<and> as_bytes L (MsgChecklistResponses \<lparr>f_length = 8, f_value = PNone\<rparr>
                 \<lparr>r_value = Some [(0, PInt 0), (1, PInt 1), (2, PInt 2), (3, PInt 0),
                                   (4, PInt 1)]\<rparr> 1)
        = Inl AttributeError)
   \<and> (MsgUserQuestionResponse_init L
        (PDict [(key ''question_id'', PInt 2),
                (key ''responses'', PList [PBool True, PBool False])])
        = Inr (MsgUserQuestionResponse \<lparr>f_length = 8, f_value = PNone\<rparr> 2
                 \<lparr>vl_length = 10, vl_value = Some (PList [PBool True, PBool False])\<rparr>)
      \<and> as_bytes L (MsgUserQuestionResponse \<lparr>f_length = 8, f_value = PNone\<rparr> 2
                 \<lparr>vl_length = 10, vl_value = Some (PList [PBool True, PBool False])\<rparr>)
        = Inl AttributeError)
   \<and> (MsgImpactReport_init L
        (PDict [(key ''severity'', PInt 3), (key ''accel_direction'', PInt 1)])
        = Inr (MsgImpactReport \<lparr>f_length = 8, f_value = PNone\<rparr> 3 1)
      \<and> as_bytes L (MsgImpactReport \<lparr>f_length = 8, f_value = PNone\<rparr> 3 1)
        = Inl AttributeError)
   \<and> (MsgVehicleReport_init L
        (PDict [(key ''frame_counter'', PInt 9),
                (key ''uwbpos'',
                 PDict [(key ''xpos'', PFloat 1.234), (key ''ypos'', PFloat (- 2.5)),
                        (key ''zpos'', PFloat 0)]),
                (key ''gpspos'',
                 PDict [(key ''lat'', PFloat 40.7128), (key ''lon'', PFloat (- 74.006))])])
        = Inr (MsgVehicleReport \<lparr>f_length = 8, f_value = PNone\<rparr>
                 \<lparr>f_length = 2, f_value = PInt 9\<rparr>
                 \<lparr>xpos = PFloat 1.234, ypos = PFloat (- 2.5), zpos = PFloat 0\<rparr>
                 \<lparr>lat = PFloat 40.7128, lon = PFloat (- 74.006)\<rparr>)
      \<and> as_bytes L (MsgVehicleReport \<lparr>f_length = 8, f_value = PNone\<rparr>
                 \<lparr>f_length = 2, f_value = PInt 9\<rparr>
                 \<lparr>xpos = PFloat 1.234, ypos = PFloat (- 2.5), zpos = PFloat 0\<rparr>
                 \<lparr>lat = PFloat 40.7128, lon = PFloat (- 74.006)\<rparr>)
        = Inl AttributeError)
   \<and> (MsgSetBlockStatus_init L (PDict [(key ''block_status'', PBool True)])
        = Inr (MsgSetBlockStatus \<lparr>f_length = 8, f_value = PNone\<rparr> True)
      \<and> as_bytes L (MsgSetBlockStatus \<lparr>f_length = 8, f_value = PNone\<rparr> True)
        = Inl AttributeError)
   \<and> (MsgTimeRequest_init L (PDict [])
        = Inr (MsgTimeRequest \<lparr>f_length = 8, f_value = PNone\<rparr>)
      \<and> as_bytes L (MsgTimeRequest \<lparr>f_length = 8, f_value = PNone\<rparr>)
        = Inl AttributeError)"
    by (simp only: py_bool_def pyval.case simp_thms)
qed

section \<open>Round trip through bytes\<close>

text \<open>
  C1. The claim is that decoding a message's own serialization gives the message back.
  For \<open>login_response\<close> the constructor reads \<open>uid\<close> before \<open>username\<close> while
  \<open>as_bytes\<close> writes \<open>username\<close> before \<open>uid\<close>. The record built from
  \<open>{response: True, username: 'bob', uid: 5, profile: 1}\<close> serializes to 23 bytes, and
  decoding those 23 bytes succeeds with another record: \<open>uid\<close> is 6451042 (the bytes
  \<open>b'bob\0'\<close> read as an integer) and \<open>username\<close> is empty.
\<close>

theorem login_response_bytes_round_trip_differs:
  "MsgLoginResponse_init L
     (PDict [(key ''response'', PBool True), (key ''username'', key ''bob''),
             (key ''uid'', PInt 5), (key ''profile'', PInt 1)])
   = Inr (MsgLoginResponse (PBool True) \<lparr>f_length = 4, f_value = PInt 5\<rparr>
            \<lparr>f_length = 16, f_value = key ''bob''\<rparr> 1)
   \<and> as_bytes L (MsgLoginResponse (PBool True) \<lparr>f_length = 4, f_value = PInt 5\<rparr>
            \<lparr>f_length = 16, f_value = key ''bob''\<rparr> 1)
     = Inr [2, 1, 98, 111, 98, 0, 0, 0, 0, 0, 0, 0, 0, 0, 0, 0, 0, 0, 5, 0, 0, 0, 1]
   \<and> MsgLoginResponse_init L
       (PBytes [2, 1, 98, 111, 98, 0, 0, 0, 0, 0, 0, 0, 0, 0, 0, 0, 0, 0, 5, 0, 0, 0, 1])
     = Inr (MsgLoginResponse (PInt 1) \<lparr>f_length = 4, f_value = PInt 6451042\<rparr>
            \<lparr>f_length = 16, f_value = PStr []\<rparr> 1)"
  by (simp add: MsgLoginResponse_init_def step_defs field_defs SIZE_defs)

text \<open>Three more message classes cannot make the round trip at all: \<open>impact_report\<close>
  never serializes (its \<open>as_bytes\<close> names a variable that does not exist),
  \<open>checklist_update\<close> never decodes from bytes and \<open>user_question_segment\<close> cannot be
  constructed from anything.\<close>

lemma impact_report_as_bytes_raises: "isl (as_bytes L (MsgImpactReport tagid severity accel))"
  by (simp add: bnd_def split: sum.splits)

lemma checklist_update_from_bytes_raises: "isl (MsgChecklistUpdate_init L (PBytes bs))"
  by (simp add: MsgChecklistUpdate_init_def load_if_str_def bnd_def check_type_def
        split: list.splits)

lemma user_question_segment_init_raises: "isl (MsgUserQuestionSegment_init L v)"
  by (auto simp: MsgUserQuestionSegment_init_def load_if_str_def bnd_def check_type_def
        next_byte_def check_name_def
        split: list.splits sum.splits pyval.splits option.splits)

text \<open>Where serializer and decoder agree the round trip holds, for instance for
  \<open>time_set\<close> with a timestamp that fits its four bytes.\<close>

lemma time_set_round_trip:
  assumes "0 \<le> n" and "n < 2 ^ 32"
  shows "as_bytes L (MsgTimeSet \<lparr>f_length = 4, f_value = PInt n\<rparr>) = Inr (19 # le_bytes 4 n)
       \<and> MsgTimeSet_init L (PBytes (19 # le_bytes 4 n))
           = Inr (MsgTimeSet \<lparr>f_length = 4, f_value = PInt n\<rparr>)"
proof -
  have "from_bytes (le_bytes 4 n) = n"
    using assms by (simp add: from_bytes_le_bytes del: le_bytes_num)
  moreover have "take 4 (le_bytes 4 n) = le_bytes 4 n" "drop 4 (le_bytes 4 n) = []"
    by (simp_all del: le_bytes_num)
  ultimately show ?thesis
    using assms
    by (simp add: MsgTimeSet_init_def load_if_str_def bnd_def check_type_def islice_field_def
        assert_end_def FieldTimestamp_def FieldTimestamp_SIZE_def FieldInteger_init_def
        FieldInteger_as_bytes_def py_to_bytes_def to_bytes_def del: le_bytes_num)
qed

section \<open>Width of a field's serialization\<close>

text \<open>
  C2. The claim is that every field serializes to exactly its declared width, also a
  binary field built from a short string and the checklist-responses field. In the code
  \<open>FieldChecklistSegment('abc')\<close> is accepted and its \<open>as_bytes\<close> returns the 3 bytes of
  \<open>'abc'\<close>, not 31 bytes. A checklist-responses field built from a mapping with five
  entries is accepted and its \<open>as_bytes\<close> raises: it adds an int to a bytes object.
\<close>

theorem binary_and_responses_as_bytes_width:
  "FieldChecklistSegment (key ''abc'')
     = Inr \<lparr>f_length = 31, f_value = PBytes [97, 98, 99]\<rparr>
   \<and> FieldBinary_as_bytes \<lparr>f_length = 31, f_value = PBytes [97, 98, 99]\<rparr>
     = PBytes [97, 98, 99]
   \<and> FieldChecklistResponses_init L
        (PDict [(PInt 0, PInt 0), (PInt 1, PInt 1), (PInt 2, PInt 2), (PInt 3, PInt 0),
                (PInt 4, PInt 1)])
     = Inr \<lparr>r_value = Some [(0, PInt 0), (1, PInt 1), (2, PInt 2), (3, PInt 0), (4, PInt 1)]\<rparr>
   \<and> FieldChecklistResponses_as_bytes
        \<lparr>r_value = Some [(0, PInt 0), (1, PInt 1), (2, PInt 2), (3, PInt 0), (4, PInt 1)]\<rparr>
     = Inl TypeError"
  by (simp add: step_defs field_defs SIZE_defs FieldChecklistResponses_init_def
        FieldChecklistResponses_as_bytes_def not_in_012_def eq_int_def lshift_or_def)

text \<open>The integer, text, boolean-list and GPS fields do serialize to their width whenever
  they serialize.\<close>

lemma FieldInteger_as_bytes_length:
  "FieldInteger_as_bytes f = Inr bs \<Longrightarrow> length bs = f_length f"
  by (auto simp: FieldInteger_as_bytes_def py_to_bytes_def to_bytes_def
        split: pyval.splits if_splits)

lemma FieldText_as_bytes_length:
  "FieldText_as_bytes f = Inr bs \<Longrightarrow> length bs = f_length f"
  by (auto simp: FieldText_as_bytes_def bnd_def split: pyval.splits sum.splits)

lemma FieldVarLenList_as_bytes_length:
  "FieldVarLenList_as_bytes f = Inr bs \<Longrightarrow> vl_length f \<le> 21 \<Longrightarrow> length bs = vl_length f"
  by (auto simp: FieldVarLenList_as_bytes_def bnd_def byte_of_int_def
        split: option.splits sum.splits if_splits)

lemma FieldGPSPosition_as_bytes_length:
  "FieldGPSPosition_as_bytes L p = Inr bs \<Longrightarrow> length bs = FieldGPSPosition_SIZE"
  by (auto simp: FieldGPSPosition_as_bytes_def bnd_def to_bytes_signed_def
        FieldGPSPosition_SIZE_def BYTES_PER_COORD_def
        split: sum.splits if_splits)

text \<open>The checklist-responses field serializes no mapping that has an entry.\<close>

lemma responses_pack_nonempty: "d \<noteq> [] \<Longrightarrow> responses_pack out d = Inl TypeError"
  by (cases d) (auto simp: bnd_def lshift_or_def bytes_iadd_def split: pyval.splits sum.splits)

section \<open>Dispatch on the type code\<close>

text \<open>
  C3. The claim is that \<open>parse_bytes\<close> has one entry per message type, codes 1-3, 5-8
  and 10-20, and fails for the other codes only. The table has no entry for code 7
  (\<open>checklist_update\<close>) nor for code 13 (\<open>user_question\<close>): a buffer that starts with
  either byte raises \<open>KeyError\<close>, whatever follows.
\<close>

theorem parse_bytes_codes_7_and_13_unmapped:
  "parse_bytes L (7 # bs) = Inl KeyError \<and> parse_bytes L (13 # bs) = Inl KeyError"
  by (simp add: parse_bytes_def typecode_to_msg_def)

text \<open>The codes the table maps, and the reserved codes 4 and 9.\<close>

lemma typecode_to_msg_keys:
  "(map_of (typecode_to_msg :: (int \<times> ('f pylib \<Rightarrow> 'f pyval \<Rightarrow> error + 'f msg)) list) c = None)
     = (c \<notin> {1, 2, 3, 5, 6, 8, 10, 11, 12, 14, 15, 16, 17, 18, 19, 20})"
  by (simp add: typecode_to_msg_def)

lemma parse_bytes_reserved_codes:
  "parse_bytes L (4 # bs) = Inl KeyError \<and> parse_bytes L (9 # bs) = Inl KeyError"
  by (simp add: parse_bytes_def typecode_to_msg_def)

section \<open>Splitting a document into segments\<close>

text \<open>
  C4. The claim is that both splitters return a start message and the segment messages.
  \<open>user_question_splitter\<close> returns nothing: for every document and every question id
  it raises.
\<close>

theorem user_question_splitter_raises: "isl (user_question_splitter L user_question_data question_id)"
  by (simp add: user_question_splitter_def bnd_def split: sum.splits)

text \<open>\<open>checklist_splitter\<close> does return. Its loop cuts the document into 31-byte
  segments and always ends with a padded one, so a document of \<open>n\<close> bytes gives
  \<open>n div 31 + 1\<close> segments: one more than \<open>ceil(n / 31)\<close> when 31 divides \<open>n\<close>.\<close>

lemma checklist_segments_short:
  "length it < 31 \<Longrightarrow>
   checklist_segments it acc = acc @ [it @ replicate (31 - length it) 0]"
  by (subst checklist_segments.simps) (simp add: FieldChecklistSegment_SIZE_def)

lemma checklist_segments_long:
  "31 \<le> length it \<Longrightarrow>
   checklist_segments it acc = checklist_segments (drop 31 it) (acc @ [take 31 it])"
  by (subst checklist_segments.simps) (simp add: FieldChecklistSegment_SIZE_def)

lemma checklist_segments_length:
  "length (checklist_segments it acc) = length acc + length it div 31 + 1"
proof (induction "length it" arbitrary: it acc rule: less_induct)
  case less
  show ?case
  proof (cases "length it < 31")
    case True
    then show ?thesis by (simp add: checklist_segments_short)
  next
    case False
    then have long: "31 \<le> length it" by simp
    then have "length (drop 31 it) < length it" by simp
    from less [OF this, of "acc @ [take 31 it]"] long
    show ?thesis
      by (simp add: checklist_segments_long le_div_geq)
  qed
qed

lemma checklist_segments_concat:
  "concat (checklist_segments it acc)
     = concat acc @ it @ replicate (31 - length it mod 31) 0"
proof (induction "length it" arbitrary: it acc rule: less_induct)
  case less
  show ?case
  proof (cases "length it < 31")
    case True
    then show ?thesis by (simp add: checklist_segments_short)
  next
    case False
    then have long: "31 \<le> length it" by simp
    then have "length (drop 31 it) < length it" by simp
    from less [OF this, of "acc @ [take 31 it]"] long
    show ?thesis
      by (simp add: checklist_segments_long le_mod_geq)
  qed
qed

lemma checklist_segments_sizes:
  "list_all (\<lambda>s. length s = 31) acc \<Longrightarrow>
   list_all (\<lambda>s. length s = 31) (checklist_segments it acc)"
proof (induction "length it" arbitrary: it acc rule: less_induct)
  case less
  show ?case
  proof (cases "length it < 31")
    case True
    with less.prems show ?thesis by (simp add: checklist_segments_short)
  next
    case False
    then have long: "31 \<le> length it" by simp
    then have "length (drop 31 it) < length it" by simp
    from less(1) [OF this, of "acc @ [take 31 it]"] long less.prems
    show ?thesis
      by (simp add: checklist_segments_long)
  qed
qed

lemma checklist_segments_reassemble:
  "take (length it) (concat (checklist_segments it [])) = it"
  by (simp add: checklist_segments_concat)

lemma checklist_segments_31_bytes:
  "length it = 31 \<Longrightarrow> checklist_segments it [] = [it, replicate 31 0]"
  by (simp add: checklist_segments_long checklist_segments_short)

lemma segment_init:
  "py_int L cv = Inr v \<Longrightarrow> length seg = 31 \<Longrightarrow>
   MsgChecklistUpdateSegment_init L
     (PDict [(key ''checklist_version'', cv), (key ''seq_no'', PInt (int i)),
             (key ''segment'', PBytes seg)])
   = Inr (MsgChecklistUpdateSegment v (int i) \<lparr>f_length = 31, f_value = PBytes seg\<rparr>)"
  by (simp add: MsgChecklistUpdateSegment_init_def load_if_str_def bnd_def check_name_def
        int_item_def getitem_def FieldChecklistSegment_def FieldBinary_init_def
        FieldChecklistSegment_SIZE_def py_int_def)

lemma start_init:
  "py_int L cv = Inr v \<Longrightarrow>
   MsgChecklistUpdateStart_init L
     (PDict [(key ''segments'', PInt n), (key ''checklist_version'', cv),
             (key ''length'', PInt l)])
   = Inr (MsgChecklistUpdateStart n v \<lparr>f_length = 2, f_value = PInt l\<rparr>)"
  by (simp add: MsgChecklistUpdateStart_init_def load_if_str_def bnd_def check_name_def
        int_item_def getitem_def FieldPayloadLength_def FieldInteger_init_def
        FieldPayloadLength_SIZE_def py_int_def)

lemma checklist_splitter_result:
  assumes "json_dumps L d = Inr s" and "encode s = Inr bs" and "py_int L cv = Inr v"
  shows "checklist_splitter L d cv
    = Inr (MsgChecklistUpdateStart (int (length bs div 31 + 1)) v
             \<lparr>f_length = 2, f_value = PInt (int (length bs))\<rparr>
           # map (\<lambda>(i, seg). MsgChecklistUpdateSegment v (int i)
                                \<lparr>f_length = 31, f_value = PBytes seg\<rparr>)
               (enumerate 0 (checklist_segments bs [])))"
proof -
  let ?segs = "checklist_segments bs []"
  have sizes: "list_all (\<lambda>s. length s = 31) ?segs"
    by (rule checklist_segments_sizes) simp
  have "list_all (\<lambda>(i, seg). length seg = 31) (enumerate 0 ?segs)"
    using sizes by (rule list_all_enumerate)
  then have "list_all (\<lambda>x. (\<lambda>(seq_no, segment).
                 MsgChecklistUpdateSegment_init L
                   (PDict [(key ''checklist_version'', cv),
                           (key ''seq_no'', PInt (int seq_no)),
                           (key ''segment'', PBytes segment)])) x
          = Inr ((\<lambda>(i, seg). MsgChecklistUpdateSegment v (int i)
                    \<lparr>f_length = 31, f_value = PBytes seg\<rparr>) x))
       (enumerate 0 ?segs)"
    using segment_init [OF assms(3)] by (fastforce simp: list_all_iff)
  from collect_map [OF this]
    start_init [OF assms(3), of "int (length ?segs)" "int (length bs)"] assms
  show ?thesis
    by (simp add: checklist_splitter_def bnd_def Let_def checklist_segments_length)
qed

section \<open>Text fields\<close>

text \<open>
  C5. The claim is that a text value whose encoding fills the field exactly survives
  encoding and decoding. The 16-character user name \<open>'abcdefghijklmnop'\<close> is accepted and
  encodes to 16 bytes without a NUL; decoding those 16 bytes raises \<open>ValueError\<close>, from
  \<open>t.index('\0')\<close>.
\<close>

theorem username_full_width_decode_raises:
  "FieldUsername (key ''abcdefghijklmnop'')
     = Inr \<lparr>f_length = 16, f_value = key ''abcdefghijklmnop''\<rparr>
   \<and> FieldText_as_bytes \<lparr>f_length = 16, f_value = key ''abcdefghijklmnop''\<rparr>
     = Inr [97, 98, 99, 100, 101, 102, 103, 104, 105, 106, 107, 108, 109, 110, 111, 112]
   \<and> FieldUsername
       (PBytes [97, 98, 99, 100, 101, 102, 103, 104, 105, 106, 107, 108, 109, 110, 111, 112])
     = Inl ValueError"
  by (simp add: step_defs field_defs SIZE_defs)

text \<open>A value of ASCII characters without NUL that is shorter than the field does
  survive: it is stored, padded with NULs, and decoded to itself.\<close>

lemma text_round_trip_ascii:
  assumes "list_all (\<lambda>c. 0 < c \<and> c < 128) s" and "length s < len"
  shows "FieldText_init (PStr s) len = Inr \<lparr>f_length = len, f_value = PStr s\<rparr>
       \<and> FieldText_as_bytes \<lparr>f_length = len, f_value = PStr s\<rparr>
           = Inr (map of_nat s @ replicate (len - length s) 0)
       \<and> FieldText_init (PBytes (map of_nat s @ replicate (len - length s) 0)) len
           = Inr \<lparr>f_length = len, f_value = PStr s\<rparr>"
proof -
  from assms(1) have ascii: "list_all (\<lambda>c. c < 128) s" and nz: "0 \<notin> set s"
    by (auto simp: list_all_iff)
  obtain k where k: "len - length s = Suc k"
    using assms(2) by (cases "len - length s") auto
  have pad: "list_all (\<lambda>c. c < 128) (s @ replicate (len - length s) (0::nat))"
    using ascii by (auto simp: list_all_iff)
  have un: "map unat (map of_nat s @ replicate (len - length s) (0 :: byte))
            = s @ replicate (len - length s) 0"
    using unat_of_nat_ascii [OF ascii] by simp
  have dec: "decode (map of_nat s @ replicate (len - length s) 0)
             = Inr (s @ replicate (len - length s) 0)"
    unfolding decode_def un by (rule decode_nat_ascii [OF pad])
  have idx: "first_index (s @ replicate (len - length s) 0) 0 = Some (length s)"
    using first_index_append_zero [OF nz] by (simp add: k)
  show ?thesis
    using assms(2) ascii
    by (simp add: FieldText_init_def FieldText_as_bytes_def encode_ascii bnd_def dec
          str_index_def idx)
qed

section \<open>Buffers of the wrong length\<close>

text \<open>
  C6. The claim is that a buffer whose length is not the message's width is rejected.
  The 4-byte buffer \<open>14 01 02 00\<close> is accepted as a \<open>tag_config\<close> message with an empty
  vehicle name, although the message is 19 bytes wide (which is what \<open>as_bytes\<close> of the
  accepted record gives).
\<close>

theorem tag_config_short_buffer_accepted:
  "MsgTagConfig_init L (PBytes [20, 1, 2, 0])
     = Inr (MsgTagConfig 1 2 \<lparr>f_length = 16, f_value = PStr []\<rparr>)
   \<and> as_bytes L (MsgTagConfig 1 2 \<lparr>f_length = 16, f_value = PStr []\<rparr>)
     = Inr [20, 1, 2, 0, 0, 0, 0, 0, 0, 0, 0, 0, 0, 0, 0, 0, 0, 0, 0]"
  by (simp add: MsgTagConfig_init_def step_defs field_defs SIZE_defs)

text \<open>A message made of integer fields only does reject every buffer of another length,
  for instance \<open>login_request\<close> (13 bytes).\<close>

lemma login_request_wrong_length_raises:
  "length bs \<noteq> 13 \<Longrightarrow> isl (MsgLoginRequest_init L (PBytes bs))"
  by (auto simp: MsgLoginRequest_init_def load_if_str_def bnd_def check_type_def
        islice_field_def assert_end_def FieldUID_def FieldTagID_def FieldInteger_init_def
        FieldUID_SIZE_def FieldTagID_SIZE_def
        split: list.splits sum.splits if_splits)

section \<open>Checklist responses\<close>

text \<open>
  C7. The claim is that the byte with low five bits 3 and high three bits 2 (\<open>0x43\<close>)
  decodes to question 3, answer 2, and that the mapping \<open>{3: 2, 7: 0}\<close> survives
  encoding and decoding. In the code a 5-byte slot that starts with \<open>0x43\<close> does not
  decode: the constructor raises \<open>AttributeError\<close>. The mapping \<open>{3: 2, 7: 0}\<close> is not
  accepted either: the constructor raises while it builds the message of its length
  check.
\<close>

theorem checklist_responses_decode_raises:
  "FieldChecklistResponses_init L (PBytes [0x43, 0, 0, 0, 0]) = Inl AttributeError
   \<and> FieldChecklistResponses_init L (PDict [(PInt 3, PInt 2), (PInt 7, PInt 0)]) = Inl KeyError"
  by (simp add: step_defs SIZE_defs FieldChecklistResponses_init_def length_error_def)

text \<open>No byte string at all decodes, and every 5-byte slot fails in the same way.\<close>

lemma checklist_responses_from_bytes_raises:
  "isl (FieldChecklistResponses_init L (PBytes bs))"
  by (cases bs)
     (auto simp: FieldChecklistResponses_init_def bnd_def py_len_def Let_def NUM_RESPONSES_def)

lemma checklist_responses_five_bytes:
  "length bs = 5 \<Longrightarrow> FieldChecklistResponses_init L (PBytes bs) = Inl AttributeError"
  by (cases bs)
     (auto simp: FieldChecklistResponses_init_def bnd_def py_len_def Let_def NUM_RESPONSES_def)

section \<open>Position fields\<close>

text \<open>
  C8. The claim is that a UWB position survives encoding and decoding within 0.001.
  The position \<open>{xpos: 1.234, ypos: -2.5, zpos: 0.0}\<close> is accepted, and encoding it
  raises \<open>AttributeError\<close>: \<open>as_bytes\<close> calls \<open>to_bytes\<close> on a float. This holds whatever
  the library's float arithmetic does.
\<close>

theorem uwb_position_as_bytes_raises:
  "FieldUWBPosition_init L
     (PDict [(key ''xpos'', PFloat (1.234 :: real)), (key ''ypos'', PFloat (- 2.5)),
             (key ''zpos'', PFloat 0)])
     = Inr \<lparr>xpos = PFloat 1.234, ypos = PFloat (- 2.5), zpos = PFloat 0\<rparr>
   \<and> FieldUWBPosition_as_bytes L
       \<lparr>xpos = PFloat 1.234, ypos = PFloat (- 2.5), zpos = PFloat 0\<rparr>
     = Inl AttributeError"
  by (simp add: FieldUWBPosition_init_def FieldUWBPosition_as_bytes_def step_defs
        mul_float_def py_to_bytes_def)

text \<open>No UWB position can be encoded, whatever its coordinates are.\<close>

lemma uwb_position_as_bytes_never_returns: "isl (FieldUWBPosition_as_bytes L p)"
  by (auto simp: FieldUWBPosition_as_bytes_def bnd_def mul_float_def py_to_bytes_def
        split: sum.splits pyval.splits)

section \<open>The structured form\<close>

text \<open>
  C9. The claim is that \<open>as_dict\<close> of every message has a \<open>type\<close> key with the message's
  name. The \<open>tag_config\<close> record built from
  \<open>{crash_sens: 1, report_rate: 2, vehicle_name: 'car'}\<close> has an \<open>as_dict\<close> with exactly
  the three keys \<open>crash_sens\<close>, \<open>report_rate\<close> and \<open>vehicle_name\<close>: looking up \<open>type\<close> in
  it finds nothing.
\<close>

theorem tag_config_as_dict_has_no_type:
  "MsgTagConfig_init L
     (PDict [(key ''crash_sens'', PInt 1), (key ''report_rate'', PInt 2),
             (key ''vehicle_name'', key ''car'')])
     = Inr (MsgTagConfig 1 2 \<lparr>f_length = 16, f_value = key ''car''\<rparr>)
   \<and> as_dict (MsgTagConfig 1 2 \<lparr>f_length = 16, f_value = key ''car''\<rparr> :: 'f msg)
     = Inr (PDict [(key ''crash_sens'', PInt 1), (key ''report_rate'', PInt 2),
                   (key ''vehicle_name'', key ''car'')])
   \<and> map_of [(key ''crash_sens'', PInt 1), (key ''report_rate'', PInt 2),
              (key ''vehicle_name'', key ''car'' :: 'f pyval)] (key ''type'') = None"
  by (simp add: MsgTagConfig_init_def step_defs field_defs SIZE_defs)

text \<open>Every other class does put its name under \<open>type\<close>; \<open>tag_config\<close> never does.\<close>

lemma as_dict_type_key:
  "as_dict m = Inr (PDict d) \<Longrightarrow> NAME m \<noteq> ''tag_config'' \<Longrightarrow>
   map_of d (key ''type'') = Some (key (NAME m))"
  by (cases m) (auto simp: bnd_def split: sum.splits)

lemma tag_config_as_dict_keys:
  "as_dict (MsgTagConfig c r v) = Inr (PDict d) \<Longrightarrow> map_of d (key ''type'') = None"
  by auto

end
